theory Spec2Isabelle
  imports Main "HOL-Library.Word"
begin

section \<open>Go values, maps and panics\<close>

text \<open>
  The translator of \<^verbatim>\<open>resource_datadog_synthetics_test_.go\<close> works on Terraform's
  dynamically typed configuration trees: \<^verbatim>\<open>interface{}\<close> values that hold a string,
  a bool, an int, a float64, a \<^verbatim>\<open>[]interface{}\<close> or a \<^verbatim>\<open>map[string]interface{}\<close>.
  A Go string is a byte sequence, as \<^typ>\<open>string\<close> is. A float64 is kept as its
  IEEE-754 bit pattern. A map is an association list read with \<^const>\<open>map_of\<close>.
\<close>

type_synonym float64 = "64 word"

datatype val =
    VNil
  | VString string
  | VBool bool
  | VInt int
  | VFloat float64
  | VList "val list"
  | VMap "(string \<times> val) list"

type_synonym gomap = "(string \<times> val) list"

text \<open>
  What stops a Go function without a result: a failed type assertion \<^verbatim>\<open>v.(T)\<close>, an
  index out of range, a method called on a nil interface.
\<close>

datatype panic = TypeAssertion | IndexOutOfRange | NilDereference

definition bind :: "panic + 'a \<Rightarrow> ('a \<Rightarrow> panic + 'b) \<Rightarrow> panic + 'b" where
  "bind m f = (case m of Inl e \<Rightarrow> Inl e | Inr x \<Rightarrow> f x)"

text \<open>\<^verbatim>\<open>m[k]\<close>: the value stored under the key, the nil interface when there is none.\<close>

definition mapIndex :: "gomap \<Rightarrow> string \<Rightarrow> val" where
  "mapIndex m k = (case map_of m k of None \<Rightarrow> VNil | Some v \<Rightarrow> v)"

text \<open>\<^verbatim>\<open>v.(string)\<close>, \<^verbatim>\<open>v.(bool)\<close>, \<^verbatim>\<open>v.([]interface{})\<close>, \<^verbatim>\<open>v.(map[string]interface{})\<close>.\<close>

definition asString :: "val \<Rightarrow> panic + string" where
  "asString v = (case v of VString s \<Rightarrow> Inr s | _ \<Rightarrow> Inl TypeAssertion)"

definition asBool :: "val \<Rightarrow> panic + bool" where
  "asBool v = (case v of VBool b \<Rightarrow> Inr b | _ \<Rightarrow> Inl TypeAssertion)"

definition asList :: "val \<Rightarrow> panic + val list" where
  "asList v = (case v of VList xs \<Rightarrow> Inr xs | _ \<Rightarrow> Inl TypeAssertion)"

definition asMap :: "val \<Rightarrow> panic + gomap" where
  "asMap v = (case v of VMap m \<Rightarrow> Inr m | _ \<Rightarrow> Inl TypeAssertion)"

text \<open>\<^verbatim>\<open>xs[i]\<close> on a slice.\<close>

definition sliceIndex :: "'a list \<Rightarrow> nat \<Rightarrow> panic + 'a" where
  "sliceIndex xs i = (if i < length xs then Inr (xs ! i) else Inl IndexOutOfRange)"

section \<open>Certificate digests\<close>

text \<open>
  \<^verbatim>\<open>isCertHash\<close> matches the content against \<^verbatim>\<open>^[A-Fa-f0-9]{64}$\<close>. Go's \<^verbatim>\<open>$\<close>
  (no multi-line flag) is the end of the text, so the match is: 64 bytes, each in the
  class.
\<close>

definition isHexChar :: "char \<Rightarrow> bool" where
  "isHexChar c = (c \<in> set ''ABCDEFabcdef0123456789'')"

definition isCertHash :: "string \<Rightarrow> bool" where
  "isCertHash content = (length content = 64 \<and> list_all isHexChar content)"

text \<open>
  Modelled from the spec: \<^verbatim>\<open>utils.ConvertToSha256\<close> (package
  \<^verbatim>\<open>datadog/internal/utils\<close>) is not among the sources. The spec calls its result
  "a fixed-length hexadecimal string of a specific length characteristic of a
  cryptographic hash", the source "the sha256 of a client certificate content" and
  "64 hexadecimal characters": the 32 bytes of the SHA-256 sum, each printed as two
  lower-case hexadecimal digits. The sum itself (\<^verbatim>\<open>crypto/sha256\<close>) is the parameter
  \<open>sum256\<close>.
\<close>

definition hexDigit :: "nat \<Rightarrow> char" where
  "hexDigit n = ''0123456789abcdef'' ! n"

definition hexByte :: "8 word \<Rightarrow> string" where
  "hexByte b = [hexDigit (unat b div 16), hexDigit (unat b mod 16)]"

definition digestBytes :: "256 word \<Rightarrow> 8 word list" where
  "digestBytes w = map (\<lambda>i. ucast (drop_bit (8 * (31 - i)) w)) [0..<32]"

definition ConvertToSha256 :: "(string \<Rightarrow> 256 word) \<Rightarrow> string \<Rightarrow> string" where
  "ConvertToSha256 sum256 content = concat (map hexByte (digestBytes (sum256 content)))"

definition getCertificateStateValue :: "(string \<Rightarrow> 256 word) \<Rightarrow> string \<Rightarrow> string" where
  "getCertificateStateValue sum256 content =
     (if isCertHash content then content else ConvertToSha256 sum256 content)"

section \<open>Client certificates: configuration to model\<close>

record SyntheticsTestRequestCertificateItem =
  Content :: "string option"
  Filename :: "string option"
  UpdatedAt :: "string option"

record SyntheticsTestRequestCertificate =
  Cert :: "SyntheticsTestRequestCertificateItem option"
  Key :: "SyntheticsTestRequestCertificateItem option"

definition emptyCertificateItem :: SyntheticsTestRequestCertificateItem where
  "emptyCertificateItem = \<lparr>Content = None, Filename = None, UpdatedAt = None\<rparr>"

text \<open>
  The block \<^verbatim>\<open>buildDatadogRequestCertificates\<close> runs once on \<^verbatim>\<open>clientCert\<close> and once
  on \<^verbatim>\<open>clientKey\<close>: the content is set unless it is empty or already a hash, then the
  file name unless it is empty.
\<close>

definition certificateItem :: "gomap \<Rightarrow> panic + SyntheticsTestRequestCertificateItem" where
  "certificateItem clientCert =
     bind (if mapIndex clientCert ''content'' \<noteq> VString ''''
           then bind (asString (mapIndex clientCert ''content'')) (\<lambda>c.
                  if \<not> isCertHash c
                  then bind (asString (mapIndex clientCert ''content'')) (\<lambda>c'.
                         Inr (emptyCertificateItem\<lparr>Content := Some c'\<rparr>))
                  else Inr emptyCertificateItem)
           else Inr emptyCertificateItem) (\<lambda>cert.
     if mapIndex clientCert ''filename'' \<noteq> VString ''''
     then bind (asString (mapIndex clientCert ''filename'')) (\<lambda>f.
            Inr (cert\<lparr>Filename := Some f\<rparr>))
     else Inr cert)"

definition buildDatadogRequestCertificates ::
  "gomap \<Rightarrow> panic + SyntheticsTestRequestCertificate" where
  "buildDatadogRequestCertificates requestClientCertificate =
     bind (asList (mapIndex requestClientCertificate ''cert'')) (\<lambda>clientCerts.
     bind (asList (mapIndex requestClientCertificate ''key'')) (\<lambda>clientKeys.
     bind (bind (sliceIndex clientCerts 0) asMap) (\<lambda>clientCert.
     bind (bind (sliceIndex clientKeys 0) asMap) (\<lambda>clientKey.
     bind (certificateItem clientCert) (\<lambda>cert.
     bind (certificateItem clientKey) (\<lambda>key.
     Inr \<lparr>Cert = Some cert, Key = Some key\<rparr>))))))"

section \<open>Library functions the translator calls\<close>

text \<open>
  \<^verbatim>\<open>strconv.Atoi\<close> with its error; the flag says that the error is nil. A string of 1
  to 18 bytes takes the fast path: an optional sign, then decimal digits only, and 0 with
  a syntax error otherwise. Any other string goes through \<^verbatim>\<open>ParseInt(s, 10, 0)\<close> and
  \<^verbatim>\<open>ParseUint\<close>, which reads byte by byte: a byte that is not a digit is a syntax
  error (the value 0), a digit that takes the number past 64 bits is a range error, raised
  there, before the bytes that follow are read. \<^verbatim>\<open>ParseInt\<close> turns a range error, and
  a number past 63 bits, into the nearest bound.
\<close>

datatype numError = ErrSyntax | ErrRange

definition isDigit :: "char \<Rightarrow> bool" where
  "isDigit c = (c \<in> set ''0123456789'')"

definition digitVal :: "char \<Rightarrow> int" where
  "digitVal c = int (of_char c) - 48"

definition decimal :: "string \<Rightarrow> int" where
  "decimal s = foldl (\<lambda>n c. n * 10 + digitVal c) 0 s"

fun parseUintFrom :: "int \<Rightarrow> string \<Rightarrow> int \<times> numError option" where
  "parseUintFrom n [] = (n, None)"
| "parseUintFrom n (c # cs) =
     (if \<not> isDigit c then (0, Some ErrSyntax)
      else if n \<ge> 1844674407370955162 then (2 ^ 64 - 1, Some ErrRange)
      else if n * 10 + digitVal c > 2 ^ 64 - 1 then (2 ^ 64 - 1, Some ErrRange)
      else parseUintFrom (n * 10 + digitVal c) cs)"

definition ParseUint :: "string \<Rightarrow> int \<times> numError option" where
  "ParseUint s = (if s = [] then (0, Some ErrSyntax) else parseUintFrom 0 s)"

definition ParseInt :: "string \<Rightarrow> int \<times> numError option" where
  "ParseInt s =
     (if s = [] then (0, Some ErrSyntax)
      else let neg = (hd s = CHR ''-'');
               body = (if hd s = CHR ''+'' \<or> hd s = CHR ''-'' then tl s else s);
               (un, err) = ParseUint body
           in if err = Some ErrSyntax then (0, err)
              else if \<not> neg \<and> un \<ge> 2 ^ 63 then (2 ^ 63 - 1, Some ErrRange)
              else if neg \<and> un > 2 ^ 63 then (- (2 ^ 63), Some ErrRange)
              else (if neg then - un else un, None))"

definition Atoi :: "string \<Rightarrow> int \<times> bool" where
  "Atoi s =
     (if 0 < length s \<and> length s < 19
      then let body = (if hd s = CHR ''-'' \<or> hd s = CHR ''+'' then tl s else s)
           in if body = [] then (0, False)
              else if \<not> list_all isDigit body then (0, False)
              else (if hd s = CHR ''-'' then - decimal body else decimal body, True)
      else let (i64, err) = ParseInt s in (i64, err = None))"

text \<open>
  \<^verbatim>\<open>regexp.MatchString("{{\\s*([^{}]*?)\\s*}}", v)\<close>: an unanchored search. White space
  is in the class \<^verbatim>\<open>[^{}]\<close>, so the pattern matches where two opening braces are
  followed by any run of bytes other than braces and then by two closing braces.
\<close>

fun templateCloses :: "string \<Rightarrow> bool" where
  "templateCloses [] = False"
| "templateCloses (c # cs) =
     (if c = CHR ''}'' then (case cs of d # _ \<Rightarrow> d = CHR ''}'' | [] \<Rightarrow> False)
      else if c = CHR ''{'' then False
      else templateCloses cs)"

fun templateMatch :: "string \<Rightarrow> bool" where
  "templateMatch (a # b # cs) =
     ((a = CHR ''{'' \<and> b = CHR ''{'' \<and> templateCloses cs) \<or> templateMatch (b # cs))"
| "templateMatch _ = False"

text \<open>
  What stays a parameter: \<^verbatim>\<open>strconv.ParseFloat(s, 64)\<close> (the float64 and whether the
  error is nil) and the two enum constructors of the API client, which return the enum
  value or an error (\<open>Inl\<close> its text).
\<close>

record lib =
  ParseFloat :: "string \<Rightarrow> float64 \<times> bool"
  NewSyntheticsAssertionJSONSchemaMetaSchemaFromValue :: "string \<Rightarrow> string + string"
  NewSyntheticsBasicAuthOauthTokenApiAuthenticationFromValue :: "string \<Rightarrow> string + string"

section \<open>Basic authentication: configuration to model\<close>

text \<open>
  The API client's \<^verbatim>\<open>SyntheticsBasicAuth\<close> is a struct of one pointer per credential
  scheme. A pointer field is an \<^typ>\<open>'a option\<close>, a plain field its value.
\<close>

record SyntheticsBasicAuthWeb =
  web_Password :: string
  web_Type :: "string option"
  web_Username :: string

record SyntheticsBasicAuthSigv4 =
  sigv4_AccessKey :: string
  sigv4_Region :: "string option"
  sigv4_SecretKey :: string
  sigv4_ServiceName :: "string option"
  sigv4_SessionToken :: "string option"
  sigv4_Type :: string

record SyntheticsBasicAuthNTLM =
  ntlm_Domain :: "string option"
  ntlm_Password :: "string option"
  ntlm_Type :: string
  ntlm_Username :: "string option"
  ntlm_Workstation :: "string option"

record SyntheticsBasicAuthDigest =
  digest_Password :: string
  digest_Type :: string
  digest_Username :: string

record SyntheticsBasicAuthOauthClient =
  oauthClient_AccessTokenUrl :: string
  oauthClient_Audience :: "string option"
  oauthClient_ClientId :: string
  oauthClient_ClientSecret :: string
  oauthClient_Resource :: "string option"
  oauthClient_Scope :: "string option"
  oauthClient_TokenApiAuthentication :: string
  oauthClient_Type :: string

record SyntheticsBasicAuthOauthROP =
  oauthROP_AccessTokenUrl :: string
  oauthROP_Audience :: "string option"
  oauthROP_ClientId :: "string option"
  oauthROP_ClientSecret :: "string option"
  oauthROP_Password :: string
  oauthROP_Resource :: "string option"
  oauthROP_Scope :: "string option"
  oauthROP_TokenApiAuthentication :: string
  oauthROP_Type :: string
  oauthROP_Username :: string

record SyntheticsBasicAuth =
  BasicAuthWeb :: "SyntheticsBasicAuthWeb option"
  BasicAuthSigv4 :: "SyntheticsBasicAuthSigv4 option"
  BasicAuthNTLM :: "SyntheticsBasicAuthNTLM option"
  BasicAuthDigest :: "SyntheticsBasicAuthDigest option"
  BasicAuthOauthClient :: "SyntheticsBasicAuthOauthClient option"
  BasicAuthOauthROP :: "SyntheticsBasicAuthOauthROP option"

text \<open>\<^verbatim>\<open>datadogV1.SyntheticsBasicAuth{}\<close>: every arm nil.\<close>

definition emptyBasicAuth :: SyntheticsBasicAuth where
  "emptyBasicAuth =
     \<lparr>BasicAuthWeb = None, BasicAuthSigv4 = None, BasicAuthNTLM = None,
      BasicAuthDigest = None, BasicAuthOauthClient = None, BasicAuthOauthROP = None\<rparr>"

text \<open>The \<^verbatim>\<open>...AsSyntheticsBasicAuth\<close> wrappers set one arm of the union.\<close>

definition SyntheticsBasicAuthWebAsSyntheticsBasicAuth ::
  "SyntheticsBasicAuthWeb \<Rightarrow> SyntheticsBasicAuth" where
  "SyntheticsBasicAuthWebAsSyntheticsBasicAuth v = emptyBasicAuth\<lparr>BasicAuthWeb := Some v\<rparr>"

definition SyntheticsBasicAuthSigv4AsSyntheticsBasicAuth ::
  "SyntheticsBasicAuthSigv4 \<Rightarrow> SyntheticsBasicAuth" where
  "SyntheticsBasicAuthSigv4AsSyntheticsBasicAuth v = emptyBasicAuth\<lparr>BasicAuthSigv4 := Some v\<rparr>"

definition SyntheticsBasicAuthNTLMAsSyntheticsBasicAuth ::
  "SyntheticsBasicAuthNTLM \<Rightarrow> SyntheticsBasicAuth" where
  "SyntheticsBasicAuthNTLMAsSyntheticsBasicAuth v = emptyBasicAuth\<lparr>BasicAuthNTLM := Some v\<rparr>"

definition SyntheticsBasicAuthDigestAsSyntheticsBasicAuth ::
  "SyntheticsBasicAuthDigest \<Rightarrow> SyntheticsBasicAuth" where
  "SyntheticsBasicAuthDigestAsSyntheticsBasicAuth v = emptyBasicAuth\<lparr>BasicAuthDigest := Some v\<rparr>"

definition SyntheticsBasicAuthOauthClientAsSyntheticsBasicAuth ::
  "SyntheticsBasicAuthOauthClient \<Rightarrow> SyntheticsBasicAuth" where
  "SyntheticsBasicAuthOauthClientAsSyntheticsBasicAuth v =
     emptyBasicAuth\<lparr>BasicAuthOauthClient := Some v\<rparr>"

definition SyntheticsBasicAuthOauthROPAsSyntheticsBasicAuth ::
  "SyntheticsBasicAuthOauthROP \<Rightarrow> SyntheticsBasicAuth" where
  "SyntheticsBasicAuthOauthROPAsSyntheticsBasicAuth v =
     emptyBasicAuth\<lparr>BasicAuthOauthROP := Some v\<rparr>"

text \<open>
  \<^verbatim>\<open>NewSyntheticsBasicAuthWebWithDefaults\<close> presets the type; the other constructors
  take the required fields and leave the optional ones nil.
\<close>

definition NewSyntheticsBasicAuthWebWithDefaults :: SyntheticsBasicAuthWeb where
  "NewSyntheticsBasicAuthWebWithDefaults =
     \<lparr>web_Password = '''', web_Type = Some ''web'', web_Username = ''''\<rparr>"

definition NewSyntheticsBasicAuthSigv4 ::
  "string \<Rightarrow> string \<Rightarrow> string \<Rightarrow> SyntheticsBasicAuthSigv4" where
  "NewSyntheticsBasicAuthSigv4 accessKey secretKey typ =
     \<lparr>sigv4_AccessKey = accessKey, sigv4_Region = None, sigv4_SecretKey = secretKey,
      sigv4_ServiceName = None, sigv4_SessionToken = None, sigv4_Type = typ\<rparr>"

definition NewSyntheticsBasicAuthNTLM :: "string \<Rightarrow> SyntheticsBasicAuthNTLM" where
  "NewSyntheticsBasicAuthNTLM typ =
     \<lparr>ntlm_Domain = None, ntlm_Password = None, ntlm_Type = typ, ntlm_Username = None,
      ntlm_Workstation = None\<rparr>"

definition NewSyntheticsBasicAuthDigest ::
  "string \<Rightarrow> string \<Rightarrow> string \<Rightarrow> SyntheticsBasicAuthDigest" where
  "NewSyntheticsBasicAuthDigest password typ username =
     \<lparr>digest_Password = password, digest_Type = typ, digest_Username = username\<rparr>"

definition NewSyntheticsBasicAuthOauthClient ::
  "string \<Rightarrow> string \<Rightarrow> string \<Rightarrow> string \<Rightarrow> string \<Rightarrow> SyntheticsBasicAuthOauthClient" where
  "NewSyntheticsBasicAuthOauthClient accessTokenUrl clientId clientSecret tokenApiAuthentication typ =
     \<lparr>oauthClient_AccessTokenUrl = accessTokenUrl, oauthClient_Audience = None,
      oauthClient_ClientId = clientId, oauthClient_ClientSecret = clientSecret,
      oauthClient_Resource = None, oauthClient_Scope = None,
      oauthClient_TokenApiAuthentication = tokenApiAuthentication, oauthClient_Type = typ\<rparr>"

definition NewSyntheticsBasicAuthOauthROP ::
  "string \<Rightarrow> string \<Rightarrow> string \<Rightarrow> string \<Rightarrow> string \<Rightarrow> SyntheticsBasicAuthOauthROP" where
  "NewSyntheticsBasicAuthOauthROP accessTokenUrl password tokenApiAuthentication typ username =
     \<lparr>oauthROP_AccessTokenUrl = accessTokenUrl, oauthROP_Audience = None,
      oauthROP_ClientId = None, oauthROP_ClientSecret = None, oauthROP_Password = password,
      oauthROP_Resource = None, oauthROP_Scope = None,
      oauthROP_TokenApiAuthentication = tokenApiAuthentication, oauthROP_Type = typ,
      oauthROP_Username = username\<rparr>"

text \<open>
  \<^verbatim>\<open>if v, ok := m[k].(string); ok && v != ""\<close>: the string under the key when there is
  a non-empty one.
\<close>

definition nonEmptyString :: "gomap \<Rightarrow> string \<Rightarrow> string option" where
  "nonEmptyString m k =
     (case mapIndex m k of VString v \<Rightarrow> (if v \<noteq> '''' then Some v else None) | _ \<Rightarrow> None)"

text \<open>
  On an error of the enum constructor the variable keeps its zero value, the empty
  string.
\<close>

definition tokenApiAuthenticationValue :: "lib \<Rightarrow> string \<Rightarrow> string" where
  "tokenApiAuthenticationValue l s =
     (case NewSyntheticsBasicAuthOauthTokenApiAuthenticationFromValue l s of
        Inr v \<Rightarrow> v | Inl err \<Rightarrow> '''')"

text \<open>
  \<^verbatim>\<open>buildDatadogBasicAuth\<close>: the union built and the lines written to the log, or the
  panic of a failed \<^verbatim>\<open>.(string)\<close>.
\<close>

definition buildDatadogBasicAuth ::
  "lib \<Rightarrow> gomap \<Rightarrow> panic + (SyntheticsBasicAuth \<times> string list)" where
  "buildDatadogBasicAuth l requestBasicAuth =
    (if mapIndex requestBasicAuth ''type'' = VString ''web''
        \<and> mapIndex requestBasicAuth ''username'' \<noteq> VString ''''
     then
       bind (asString (mapIndex requestBasicAuth ''password'')) (\<lambda>password.
       bind (asString (mapIndex requestBasicAuth ''username'')) (\<lambda>username.
       Inr (SyntheticsBasicAuthWebAsSyntheticsBasicAuth
              (NewSyntheticsBasicAuthWebWithDefaults
                 \<lparr>web_Password := password, web_Username := username\<rparr>), [])))
     else if mapIndex requestBasicAuth ''type'' = VString ''sigv4''
        \<and> mapIndex requestBasicAuth ''access_key'' \<noteq> VString ''''
        \<and> mapIndex requestBasicAuth ''secret_key'' \<noteq> VString ''''
     then
       bind (asString (mapIndex requestBasicAuth ''access_key'')) (\<lambda>accessKey.
       bind (asString (mapIndex requestBasicAuth ''secret_key'')) (\<lambda>secretKey.
       bind (asString (mapIndex requestBasicAuth ''region'')) (\<lambda>region.
       bind (asString (mapIndex requestBasicAuth ''service_name'')) (\<lambda>serviceName.
       bind (asString (mapIndex requestBasicAuth ''session_token'')) (\<lambda>sessionToken.
       Inr (SyntheticsBasicAuthSigv4AsSyntheticsBasicAuth
              (NewSyntheticsBasicAuthSigv4 accessKey secretKey ''sigv4''
                 \<lparr>sigv4_Region := Some region, sigv4_ServiceName := Some serviceName,
                  sigv4_SessionToken := Some sessionToken\<rparr>), []))))))
     else if mapIndex requestBasicAuth ''type'' = VString ''ntlm''
     then
       bind (asString (mapIndex requestBasicAuth ''username'')) (\<lambda>username.
       bind (asString (mapIndex requestBasicAuth ''password'')) (\<lambda>password.
       bind (asString (mapIndex requestBasicAuth ''domain'')) (\<lambda>domain.
       bind (asString (mapIndex requestBasicAuth ''workstation'')) (\<lambda>workstation.
       Inr (SyntheticsBasicAuthNTLMAsSyntheticsBasicAuth
              (NewSyntheticsBasicAuthNTLM ''ntlm''
                 \<lparr>ntlm_Domain := Some domain, ntlm_Password := Some password,
                  ntlm_Username := Some username, ntlm_Workstation := Some workstation\<rparr>),
            [])))))
     else if mapIndex requestBasicAuth ''type'' = VString ''oauth-client''
     then
       bind (asString (mapIndex requestBasicAuth ''token_api_authentication'')) (\<lambda>tokenApi.
       bind (asString (mapIndex requestBasicAuth ''access_token_url'')) (\<lambda>accessTokenUrl.
       bind (asString (mapIndex requestBasicAuth ''client_id'')) (\<lambda>clientId.
       bind (asString (mapIndex requestBasicAuth ''client_secret'')) (\<lambda>clientSecret.
       Inr (SyntheticsBasicAuthOauthClientAsSyntheticsBasicAuth
              (NewSyntheticsBasicAuthOauthClient accessTokenUrl clientId clientSecret
                 (tokenApiAuthenticationValue l tokenApi) ''oauth-client''
                 \<lparr>oauthClient_Audience := nonEmptyString requestBasicAuth ''audience'',
                  oauthClient_Resource := nonEmptyString requestBasicAuth ''resource'',
                  oauthClient_Scope := nonEmptyString requestBasicAuth ''scope''\<rparr>), [])))))
     else if mapIndex requestBasicAuth ''type'' = VString ''oauth-rop''
     then
       bind (asString (mapIndex requestBasicAuth ''token_api_authentication'')) (\<lambda>tokenApi.
       bind (asString (mapIndex requestBasicAuth ''access_token_url'')) (\<lambda>accessTokenUrl.
       bind (asString (mapIndex requestBasicAuth ''password'')) (\<lambda>password.
       bind (asString (mapIndex requestBasicAuth ''username'')) (\<lambda>username.
       bind (asString (mapIndex requestBasicAuth ''client_id'')) (\<lambda>clientId.
       bind (asString (mapIndex requestBasicAuth ''client_secret'')) (\<lambda>clientSecret.
       Inr (SyntheticsBasicAuthOauthROPAsSyntheticsBasicAuth
              (NewSyntheticsBasicAuthOauthROP accessTokenUrl password
                 (tokenApiAuthenticationValue l tokenApi) ''oauth-rop'' username
                 \<lparr>oauthROP_Audience := nonEmptyString requestBasicAuth ''audience'',
                  oauthROP_ClientId := Some clientId,
                  oauthROP_ClientSecret := Some clientSecret,
                  oauthROP_Resource := nonEmptyString requestBasicAuth ''resource'',
                  oauthROP_Scope := nonEmptyString requestBasicAuth ''scope''\<rparr>), [])))))))
     else if mapIndex requestBasicAuth ''type'' = VString ''digest''
     then
       bind (asString (mapIndex requestBasicAuth ''password'')) (\<lambda>password.
       bind (asString (mapIndex requestBasicAuth ''username'')) (\<lambda>username.
       Inr (SyntheticsBasicAuthDigestAsSyntheticsBasicAuth
              (NewSyntheticsBasicAuthDigest password ''digest'' username), [])))
     else
       bind (asString (mapIndex requestBasicAuth ''type'')) (\<lambda>typ.
       Inr (emptyBasicAuth, [''[WARN] unrecognized basic auth type '' @ typ])))"

section \<open>Assertions: configuration to model\<close>

text \<open>
  The API client's \<^verbatim>\<open>SyntheticsAssertion\<close> is a struct of one pointer per assertion
  shape. A target held as \<^verbatim>\<open>interface{}\<close> is a \<^typ>\<open>val\<close>, \<^const>\<open>VNil\<close> while
  unset.
\<close>

record SyntheticsAssertionTarget =
  target_Operator :: string
  target_Property :: "string option"
  target_Target :: val
  target_TimingsScope :: "string option"
  target_Type :: string

record SyntheticsAssertionBodyHashTarget =
  bodyHash_Operator :: string
  bodyHash_Target :: val
  bodyHash_Type :: string

record SyntheticsAssertionJSONSchemaTargetTarget =
  JsonSchema :: "string option"
  MetaSchema :: "string option"

record SyntheticsAssertionJSONSchemaTarget =
  jsonSchema_Operator :: string
  jsonSchema_Target :: "SyntheticsAssertionJSONSchemaTargetTarget option"
  jsonSchema_Type :: string

record SyntheticsAssertionJSONPathTargetTarget =
  jsonPathTarget_ElementsOperator :: "string option"
  jsonPathTarget_JsonPath :: "string option"
  jsonPathTarget_Operator :: "string option"
  jsonPathTarget_TargetValue :: val

record SyntheticsAssertionJSONPathTarget =
  jsonPath_Operator :: string
  jsonPath_Property :: "string option"
  jsonPath_Target :: "SyntheticsAssertionJSONPathTargetTarget option"
  jsonPath_Type :: string

record SyntheticsAssertionXPathTargetTarget =
  xPathTarget_Operator :: "string option"
  xPathTarget_TargetValue :: val
  xPathTarget_XPath :: "string option"

record SyntheticsAssertionXPathTarget =
  xPath_Operator :: string
  xPath_Property :: "string option"
  xPath_Target :: "SyntheticsAssertionXPathTargetTarget option"
  xPath_Type :: string

record SyntheticsAssertionJavascript =
  javascript_Code :: string
  javascript_Type :: string

record SyntheticsAssertion =
  AssertionTarget :: "SyntheticsAssertionTarget option"
  AssertionBodyHashTarget :: "SyntheticsAssertionBodyHashTarget option"
  AssertionJSONPathTarget :: "SyntheticsAssertionJSONPathTarget option"
  AssertionJSONSchemaTarget :: "SyntheticsAssertionJSONSchemaTarget option"
  AssertionXPathTarget :: "SyntheticsAssertionXPathTarget option"
  AssertionJavascript :: "SyntheticsAssertionJavascript option"

definition emptyAssertion :: SyntheticsAssertion where
  "emptyAssertion =
     \<lparr>AssertionTarget = None, AssertionBodyHashTarget = None, AssertionJSONPathTarget = None,
      AssertionJSONSchemaTarget = None, AssertionXPathTarget = None,
      AssertionJavascript = None\<rparr>"

definition SyntheticsAssertionTargetAsSyntheticsAssertion ::
  "SyntheticsAssertionTarget \<Rightarrow> SyntheticsAssertion" where
  "SyntheticsAssertionTargetAsSyntheticsAssertion v = emptyAssertion\<lparr>AssertionTarget := Some v\<rparr>"

definition SyntheticsAssertionJSONSchemaTargetAsSyntheticsAssertion ::
  "SyntheticsAssertionJSONSchemaTarget \<Rightarrow> SyntheticsAssertion" where
  "SyntheticsAssertionJSONSchemaTargetAsSyntheticsAssertion v =
     emptyAssertion\<lparr>AssertionJSONSchemaTarget := Some v\<rparr>"

definition SyntheticsAssertionJSONPathTargetAsSyntheticsAssertion ::
  "SyntheticsAssertionJSONPathTarget \<Rightarrow> SyntheticsAssertion" where
  "SyntheticsAssertionJSONPathTargetAsSyntheticsAssertion v =
     emptyAssertion\<lparr>AssertionJSONPathTarget := Some v\<rparr>"

definition SyntheticsAssertionXPathTargetAsSyntheticsAssertion ::
  "SyntheticsAssertionXPathTarget \<Rightarrow> SyntheticsAssertion" where
  "SyntheticsAssertionXPathTargetAsSyntheticsAssertion v =
     emptyAssertion\<lparr>AssertionXPathTarget := Some v\<rparr>"

definition SyntheticsAssertionJavascriptAsSyntheticsAssertion ::
  "SyntheticsAssertionJavascript \<Rightarrow> SyntheticsAssertion" where
  "SyntheticsAssertionJavascriptAsSyntheticsAssertion v =
     emptyAssertion\<lparr>AssertionJavascript := Some v\<rparr>"

text \<open>
  The constructors: required fields from the arguments, optional ones nil.
\<close>

definition NewSyntheticsAssertionTargetWithDefaults :: SyntheticsAssertionTarget where
  "NewSyntheticsAssertionTargetWithDefaults =
     \<lparr>target_Operator = '''', target_Property = None, target_Target = VNil,
      target_TimingsScope = None, target_Type = ''''\<rparr>"

definition NewSyntheticsAssertionJavascriptWithDefaults :: SyntheticsAssertionJavascript where
  "NewSyntheticsAssertionJavascriptWithDefaults =
     \<lparr>javascript_Code = '''', javascript_Type = ''javascript''\<rparr>"

definition NewSyntheticsAssertionJSONSchemaTarget ::
  "string \<Rightarrow> string \<Rightarrow> SyntheticsAssertionJSONSchemaTarget" where
  "NewSyntheticsAssertionJSONSchemaTarget operator typ =
     \<lparr>jsonSchema_Operator = operator, jsonSchema_Target = None, jsonSchema_Type = typ\<rparr>"

definition NewSyntheticsAssertionJSONSchemaTargetTarget ::
  SyntheticsAssertionJSONSchemaTargetTarget where
  "NewSyntheticsAssertionJSONSchemaTargetTarget =
     \<lparr>JsonSchema = None, MetaSchema = None\<rparr>"

definition NewSyntheticsAssertionJSONPathTarget ::
  "string \<Rightarrow> string \<Rightarrow> SyntheticsAssertionJSONPathTarget" where
  "NewSyntheticsAssertionJSONPathTarget operator typ =
     \<lparr>jsonPath_Operator = operator, jsonPath_Property = None, jsonPath_Target = None,
      jsonPath_Type = typ\<rparr>"

definition NewSyntheticsAssertionJSONPathTargetTarget ::
  SyntheticsAssertionJSONPathTargetTarget where
  "NewSyntheticsAssertionJSONPathTargetTarget =
     \<lparr>jsonPathTarget_ElementsOperator = None, jsonPathTarget_JsonPath = None,
      jsonPathTarget_Operator = None, jsonPathTarget_TargetValue = VNil\<rparr>"

definition NewSyntheticsAssertionXPathTarget ::
  "string \<Rightarrow> string \<Rightarrow> SyntheticsAssertionXPathTarget" where
  "NewSyntheticsAssertionXPathTarget operator typ =
     \<lparr>xPath_Operator = operator, xPath_Property = None, xPath_Target = None,
      xPath_Type = typ\<rparr>"

definition NewSyntheticsAssertionXPathTargetTarget :: SyntheticsAssertionXPathTargetTarget where
  "NewSyntheticsAssertionXPathTargetTarget =
     \<lparr>xPathTarget_Operator = None, xPathTarget_TargetValue = VNil, xPathTarget_XPath = None\<rparr>"

text \<open>
  \<^verbatim>\<open>isTargetOfTypeInt\<close>: six assertion types whatever the operator, and the status
  code under \<^verbatim>\<open>is\<close> and \<^verbatim>\<open>isNot\<close>.
\<close>

definition isTargetOfTypeInt :: "string \<Rightarrow> string \<Rightarrow> bool" where
  "isTargetOfTypeInt assertionType assertionOperator =
     (if assertionType \<in> set [''responseTime'', ''certificate'', ''latency'',
                               ''packetsReceived'', ''networkHop'', ''grpcHealthcheckStatus'']
      then True
      else if assertionType = ''statusCode''
              \<and> (assertionOperator = ''is'' \<or> assertionOperator = ''isNot'')
      then True
      else False)"

text \<open>
  \<^verbatim>\<open>if v, ok := m[k].([]interface{}); ok && len(v) > 0\<close>: the list under the key when
  there is a non-empty one.
\<close>

definition nonEmptyList :: "gomap \<Rightarrow> string \<Rightarrow> val list option" where
  "nonEmptyList m k =
     (case mapIndex m k of VList v \<Rightarrow> (if length v > 0 then Some v else None) | _ \<Rightarrow> None)"

text \<open>\<^verbatim>\<open>if v, ok := m[k]; ok { set(v.(string)) }\<close>: a key that is present must hold a string.\<close>

definition presentString :: "gomap \<Rightarrow> string \<Rightarrow> panic + string option" where
  "presentString m k =
     (case map_of m k of None \<Rightarrow> Inr None | Some v \<Rightarrow> bind (asString v) (\<lambda>s. Inr (Some s)))"

text \<open>
  The value a \<^verbatim>\<open>targetvalue\<close> sets under the operators \<^verbatim>\<open>lessThan\<close> and
  \<^verbatim>\<open>moreThan\<close>: a template stays the value it is, a number becomes a float64, anything
  else sets nothing and the target value stays as it was.
\<close>

definition numericTargetValue :: "lib \<Rightarrow> val \<Rightarrow> val \<Rightarrow> panic + val" where
  "numericTargetValue l old v =
     bind (asString v) (\<lambda>s.
       if templateMatch s then Inr v
       else bind (asString v) (\<lambda>s'.
              case ParseFloat l s' of
                (floatValue, True) \<Rightarrow> Inr (VFloat floatValue)
              | (_, False) \<Rightarrow> Inr old))"

text \<open>The sub-target of a \<^verbatim>\<open>validatesJSONPath\<close> assertion, from the first block.\<close>

definition jsonPathSubTarget ::
  "lib \<Rightarrow> val \<Rightarrow> panic + SyntheticsAssertionJSONPathTargetTarget" where
  "jsonPathSubTarget l first =
     bind (asMap first) (\<lambda>targetMap.
     bind (presentString targetMap ''jsonpath'') (\<lambda>jsonpath.
     bind (presentString targetMap ''operator'') (\<lambda>operator.
     bind (case map_of targetMap ''targetvalue'' of
             None \<Rightarrow> Inr VNil
           | Some v \<Rightarrow>
               bind (asString (mapIndex targetMap ''operator'')) (\<lambda>op.
                 if op = ''isUndefined'' then Inr VNil
                 else if op = ''lessThan'' \<or> op = ''moreThan'' then numericTargetValue l VNil v
                 else Inr v)) (\<lambda>targetValue.
     bind (presentString targetMap ''elementsoperator'') (\<lambda>elementsOperator.
     Inr (NewSyntheticsAssertionJSONPathTargetTarget
            \<lparr>jsonPathTarget_ElementsOperator := elementsOperator,
             jsonPathTarget_JsonPath := jsonpath,
             jsonPathTarget_Operator := operator,
             jsonPathTarget_TargetValue := targetValue\<rparr>))))))"

text \<open>The sub-target of a \<^verbatim>\<open>validatesXPath\<close> assertion, from the first block.\<close>

definition xPathSubTarget ::
  "lib \<Rightarrow> val \<Rightarrow> panic + SyntheticsAssertionXPathTargetTarget" where
  "xPathSubTarget l first =
     bind (asMap first) (\<lambda>targetMap.
     bind (presentString targetMap ''xpath'') (\<lambda>xpath.
     bind (presentString targetMap ''operator'') (\<lambda>operator.
     bind (case map_of targetMap ''targetvalue'' of
             None \<Rightarrow> Inr VNil
           | Some v \<Rightarrow>
               bind (asString (mapIndex targetMap ''operator'')) (\<lambda>op.
                 if op = ''lessThan'' \<or> op = ''moreThan'' then numericTargetValue l VNil v
                 else Inr v)) (\<lambda>targetValue.
     Inr (NewSyntheticsAssertionXPathTargetTarget
            \<lparr>xPathTarget_Operator := operator,
             xPathTarget_TargetValue := targetValue,
             xPathTarget_XPath := xpath\<rparr>)))))"

text \<open>
  The sub-target of a \<^verbatim>\<open>validatesJSONSchema\<close> assertion, with the error line of a meta
  schema the client does not know.
\<close>

definition jsonSchemaSubTarget ::
  "lib \<Rightarrow> val \<Rightarrow> panic + (SyntheticsAssertionJSONSchemaTargetTarget \<times> string list)" where
  "jsonSchemaSubTarget l first =
     bind (asMap first) (\<lambda>targetMap.
     bind (presentString targetMap ''jsonschema'') (\<lambda>jsonschema.
     bind (presentString targetMap ''metaschema'') (\<lambda>metaschema.
     let subTarget =
           (case jsonschema of
              None \<Rightarrow> NewSyntheticsAssertionJSONSchemaTargetTarget
            | Some s \<Rightarrow> NewSyntheticsAssertionJSONSchemaTargetTarget\<lparr>JsonSchema := Some s\<rparr>)
     in case metaschema of
          None \<Rightarrow> Inr (subTarget, [])
        | Some s \<Rightarrow>
            (case NewSyntheticsAssertionJSONSchemaMetaSchemaFromValue l s of
               Inr metaSchema \<Rightarrow> Inr (subTarget\<lparr>MetaSchema := Some metaSchema\<rparr>, [])
             | Inl err \<Rightarrow>
                 Inr (subTarget,
                      [''[ERROR] Error converting json schema meta schema: '' @ err])))))"

text \<open>
  The four operator branches of \<^verbatim>\<open>buildDatadogAssertions\<close>, each giving the assertion
  it appends and the lines it logs.
\<close>

definition jsonSchemaAssertion ::
  "lib \<Rightarrow> gomap \<Rightarrow> string \<Rightarrow> string \<Rightarrow> panic + (SyntheticsAssertion \<times> string list)" where
  "jsonSchemaAssertion l assertionMap assertionOperator assertionType =
     bind (case nonEmptyList assertionMap ''targetjsonschema'' of
             None \<Rightarrow> Inr (None, [])
           | Some v \<Rightarrow> bind (jsonSchemaSubTarget l (hd v)) (\<lambda>(subTarget, lg).
                        Inr (Some subTarget, lg))) (\<lambda>(target, lg).
     Inr (SyntheticsAssertionJSONSchemaTargetAsSyntheticsAssertion
            (NewSyntheticsAssertionJSONSchemaTarget assertionOperator assertionType
               \<lparr>jsonSchema_Target := target\<rparr>),
          lg @ (if map_of assertionMap ''target'' \<noteq> None
                then [''[WARN] target shouldn't be specified for validateJSONSchema operator, only targetJSONSchema'']
                else [])))"

definition jsonPathAssertion ::
  "lib \<Rightarrow> gomap \<Rightarrow> string \<Rightarrow> string \<Rightarrow> panic + (SyntheticsAssertion \<times> string list)" where
  "jsonPathAssertion l assertionMap assertionOperator assertionType =
     bind (case nonEmptyList assertionMap ''targetjsonpath'' of
             None \<Rightarrow> Inr None
           | Some v \<Rightarrow> bind (jsonPathSubTarget l (hd v)) (\<lambda>subTarget.
                        Inr (Some subTarget))) (\<lambda>target.
     Inr (SyntheticsAssertionJSONPathTargetAsSyntheticsAssertion
            (NewSyntheticsAssertionJSONPathTarget assertionOperator assertionType
               \<lparr>jsonPath_Property := nonEmptyString assertionMap ''property'',
                jsonPath_Target := target\<rparr>),
          if map_of assertionMap ''target'' \<noteq> None
          then [''[WARN] target shouldn't be specified for validatesJSONPath operator, only targetjsonpath'']
          else []))"

definition xPathAssertion ::
  "lib \<Rightarrow> gomap \<Rightarrow> string \<Rightarrow> string \<Rightarrow> panic + (SyntheticsAssertion \<times> string list)" where
  "xPathAssertion l assertionMap assertionOperator assertionType =
     bind (case nonEmptyList assertionMap ''targetxpath'' of
             None \<Rightarrow> Inr None
           | Some v \<Rightarrow> bind (xPathSubTarget l (hd v)) (\<lambda>subTarget.
                        Inr (Some subTarget))) (\<lambda>target.
     Inr (SyntheticsAssertionXPathTargetAsSyntheticsAssertion
            (NewSyntheticsAssertionXPathTarget assertionOperator assertionType
               \<lparr>xPath_Property := nonEmptyString assertionMap ''property'',
                xPath_Target := target\<rparr>),
          if map_of assertionMap ''target'' \<noteq> None
          then [''[WARN] target shouldn't be specified for validateXPath operator, only targetxpath'']
          else []))"

text \<open>
  The last branch, for every other operator. The error of \<^verbatim>\<open>strconv.Atoi\<close> and of
  \<^verbatim>\<open>strconv.ParseFloat\<close> is dropped and the number returned beside it is set.
\<close>

definition plainTarget :: "lib \<Rightarrow> string \<Rightarrow> string \<Rightarrow> val \<Rightarrow> panic + val" where
  "plainTarget l assertionType assertionOperator v =
     (if isTargetOfTypeInt assertionType assertionOperator
      then bind (asString v) (\<lambda>s. Inr (VInt (fst (Atoi s))))
      else if assertionType = ''packetLossPercentage''
      then bind (asString v) (\<lambda>s. Inr (VFloat (fst (ParseFloat l s))))
      else bind (asString v) (\<lambda>s. Inr (VString s)))"

definition plainAssertion ::
  "lib \<Rightarrow> gomap \<Rightarrow> string \<Rightarrow> string \<Rightarrow> panic + (SyntheticsAssertion \<times> string list)" where
  "plainAssertion l assertionMap assertionOperator assertionType =
     bind (case map_of assertionMap ''target'' of
             None \<Rightarrow> Inr VNil
           | Some v \<Rightarrow> plainTarget l assertionType assertionOperator v) (\<lambda>target.
     Inr (SyntheticsAssertionTargetAsSyntheticsAssertion
            (NewSyntheticsAssertionTargetWithDefaults
               \<lparr>target_Operator := assertionOperator,
                target_Property := nonEmptyString assertionMap ''property'',
                target_Target := target,
                target_TimingsScope := nonEmptyString assertionMap ''timings_scope'',
                target_Type := assertionType\<rparr>),
          (if nonEmptyList assertionMap ''targetjsonschema'' \<noteq> None
           then [''[WARN] targetjsonschema shouldn't be specified for non-validatesJSONSchema operator, only target'']
           else [])
          @ (if nonEmptyList assertionMap ''targetjsonpath'' \<noteq> None
             then [''[WARN] targetjsonpath shouldn't be specified for non-validatesJSONPath operator, only target'']
             else [])
          @ (if nonEmptyList assertionMap ''targetxpath'' \<noteq> None
             then [''[WARN] targetxpath shouldn't be specified for non-validatesXPath operator, only target'']
             else [])))"

text \<open>
  One turn of the loop of \<^verbatim>\<open>buildDatadogAssertions\<close>: the assertions it appends (none
  without a type, or without an operator when the type is not \<^verbatim>\<open>javascript\<close>) and the
  lines it logs.
\<close>

definition buildDatadogAssertion ::
  "lib \<Rightarrow> val \<Rightarrow> panic + (SyntheticsAssertion list \<times> string list)" where
  "buildDatadogAssertion l assertion =
     bind (asMap assertion) (\<lambda>assertionMap.
     case map_of assertionMap ''type'' of
       None \<Rightarrow> Inr ([], [])
     | Some v \<Rightarrow>
         bind (asString v) (\<lambda>assertionType.
         if assertionType = ''javascript''
         then bind (presentString assertionMap ''code'') (\<lambda>code.
                Inr ([SyntheticsAssertionJavascriptAsSyntheticsAssertion
                        (case code of
                           None \<Rightarrow> NewSyntheticsAssertionJavascriptWithDefaults
                                     \<lparr>javascript_Type := ''javascript''\<rparr>
                         | Some c \<Rightarrow> NewSyntheticsAssertionJavascriptWithDefaults
                                     \<lparr>javascript_Type := ''javascript'', javascript_Code := c\<rparr>)],
                     []))
         else case map_of assertionMap ''operator'' of
                None \<Rightarrow> Inr ([], [])
              | Some v \<Rightarrow>
                  bind (asString v) (\<lambda>assertionOperator.
                  bind (if assertionOperator = ''validatesJSONSchema''
                        then jsonSchemaAssertion l assertionMap assertionOperator assertionType
                        else if assertionOperator = ''validatesJSONPath''
                        then jsonPathAssertion l assertionMap assertionOperator assertionType
                        else if assertionOperator = ''validatesXPath''
                        then xPathAssertion l assertionMap assertionOperator assertionType
                        else plainAssertion l assertionMap assertionOperator assertionType)
                       (\<lambda>(a, lg). Inr ([a], lg)))))"

fun buildDatadogAssertions ::
  "lib \<Rightarrow> val list \<Rightarrow> panic + (SyntheticsAssertion list \<times> string list)" where
  "buildDatadogAssertions l [] = Inr ([], [])"
| "buildDatadogAssertions l (assertion # attr) =
     bind (buildDatadogAssertion l assertion) (\<lambda>(assertions, lg).
     bind (buildDatadogAssertions l attr) (\<lambda>(assertions', lg').
     Inr (assertions @ assertions', lg @ lg')))"

section \<open>Step parameters\<close>

text \<open>
  \<^verbatim>\<open>getParamsKeysForStepType\<close>: a table, and the empty list for any other type. The
  second component is what the function writes to the log: it has no log call, on any
  path.
\<close>

definition getParamsKeysForStepType :: "string \<Rightarrow> string list \<times> string list" where
  "getParamsKeysForStepType stepType =
     (if stepType = ''assertCurrentUrl'' then [''check'', ''value'']
      else if stepType = ''assertElementAttribute'' then [''attribute'', ''check'', ''element'', ''value'']
      else if stepType = ''assertElementContent'' then [''check'', ''element'', ''value'']
      else if stepType = ''assertElementPresent'' then [''element'']
      else if stepType = ''assertEmail'' then [''email'']
      else if stepType = ''assertFileDownload'' then [''file'']
      else if stepType = ''assertFromJavascript'' then [''code'', ''element'']
      else if stepType = ''assertPageContains'' then [''value'']
      else if stepType = ''assertPageLacks'' then [''value'']
      else if stepType = ''click'' then [''click_type'', ''element'']
      else if stepType = ''extractFromJavascript'' then [''code'', ''element'', ''variable'']
      else if stepType = ''extractVariable'' then [''element'', ''variable'']
      else if stepType = ''goToEmailLink'' then [''value'']
      else if stepType = ''goToUrl'' then [''value'']
      else if stepType = ''hover'' then [''element'']
      else if stepType = ''playSubTest'' then [''playing_tab_id'', ''subtest_public_id'']
      else if stepType = ''pressKey'' then [''modifiers'', ''value'']
      else if stepType = ''refresh'' then []
      else if stepType = ''runApiTest'' then [''request'']
      else if stepType = ''scroll'' then [''element'', ''x'', ''y'']
      else if stepType = ''selectOption'' then [''element'', ''value'']
      else if stepType = ''typeText'' then [''delay'', ''element'', ''value'']
      else if stepType = ''uploadFiles'' then [''element'', ''files'', ''with_click'']
      else if stepType = ''wait'' then [''value'']
      else [],
      [])"

section \<open>Model to configuration: values kept from the previous configuration\<close>

text \<open>\<^verbatim>\<open>m[k] = v\<close> on a map.\<close>

fun mapSet :: "('k \<times> 'v) list \<Rightarrow> 'k \<Rightarrow> 'v \<Rightarrow> ('k \<times> 'v) list" where
  "mapSet [] k v = [(k, v)]"
| "mapSet ((k', v') # m) k v = (if k' = k then (k, v) # m else (k', v') # mapSet m k v)"

record SyntheticsConfigVariable =
  configVariable_Example :: "string option"
  configVariable_Id :: "string option"
  configVariable_Name :: string
  configVariable_Pattern :: "string option"
  configVariable_Secure :: "bool option"
  configVariable_Type :: string

text \<open>\<^verbatim>\<open>if v, ok := x.GetFieldOk(); ok { m[k] = *v }\<close> for an optional string field.\<close>

definition setIfPresent :: "gomap \<Rightarrow> string \<Rightarrow> string option \<Rightarrow> gomap" where
  "setIfPresent m k field = (case field of None \<Rightarrow> m | Some v \<Rightarrow> mapSet m k (VString v))"

text \<open>
  One turn of the loop of \<^verbatim>\<open>buildTerraformConfigVariables\<close>, for the variable at
  index \<open>i\<close>. A secure variable that is not global reads \<^verbatim>\<open>oldConfigVariables[i]\<close>.
\<close>

definition localConfigVariable ::
  "SyntheticsConfigVariable \<Rightarrow> val list \<Rightarrow> nat \<Rightarrow> panic + gomap" where
  "localConfigVariable configVariable oldConfigVariables i =
     (let localVariable = mapSet [] ''type'' (VString (configVariable_Type configVariable));
          localVariable = mapSet localVariable ''name'' (VString (configVariable_Name configVariable));
          localVariable = (case configVariable_Secure configVariable of
                             None \<Rightarrow> localVariable
                           | Some v \<Rightarrow> mapSet localVariable ''secure'' (VBool v))
      in bind (if configVariable_Type configVariable \<noteq> ''global''
               then (if mapIndex localVariable ''secure'' = VBool True
                     then bind (bind (sliceIndex oldConfigVariables i) asMap) (\<lambda>old.
                          bind (asString (mapIndex old ''example'')) (\<lambda>example.
                          bind (bind (sliceIndex oldConfigVariables i) asMap) (\<lambda>old'.
                          bind (asString (mapIndex old' ''pattern'')) (\<lambda>pattern.
                          Inr (mapSet (mapSet localVariable ''example'' (VString example))
                                 ''pattern'' (VString pattern))))))
                     else Inr (setIfPresent
                                 (setIfPresent localVariable ''example''
                                    (configVariable_Example configVariable))
                                 ''pattern'' (configVariable_Pattern configVariable)))
               else Inr localVariable) (\<lambda>localVariable.
         Inr (setIfPresent localVariable ''id'' (configVariable_Id configVariable))))"

fun buildTerraformConfigVariablesFrom ::
  "nat \<Rightarrow> SyntheticsConfigVariable list \<Rightarrow> val list \<Rightarrow> panic + gomap list" where
  "buildTerraformConfigVariablesFrom i [] oldConfigVariables = Inr []"
| "buildTerraformConfigVariablesFrom i (configVariable # rest) oldConfigVariables =
     bind (localConfigVariable configVariable oldConfigVariables i) (\<lambda>localVariable.
     bind (buildTerraformConfigVariablesFrom (Suc i) rest oldConfigVariables) (\<lambda>locals.
     Inr (localVariable # locals)))"

definition buildTerraformConfigVariables ::
  "SyntheticsConfigVariable list \<Rightarrow> val list \<Rightarrow> panic + gomap list" where
  "buildTerraformConfigVariables configVariables oldConfigVariables =
     buildTerraformConfigVariablesFrom 0 configVariables oldConfigVariables"

text \<open>
  \<^verbatim>\<open>buildTerraformBodyFiles\<close>: each file of the response is written over the map at
  the same index of the previous configuration, which keeps the content. The getters
  return the zero value of a field that is nil. The bucket key is stored as the pointer
  its getter returns; the model stores the string it points to.
\<close>

record SyntheticsTestRequestBodyFile =
  bodyFile_BucketKey :: "string option"
  bodyFile_Content :: "string option"
  bodyFile_Name :: "string option"
  bodyFile_OriginalFileName :: "string option"
  bodyFile_Size :: "int option"
  bodyFile_Type :: "string option"

definition getString :: "string option \<Rightarrow> string" where
  "getString field = (case field of None \<Rightarrow> '''' | Some v \<Rightarrow> v)"

definition localBodyFile :: "SyntheticsTestRequestBodyFile \<Rightarrow> gomap \<Rightarrow> gomap" where
  "localBodyFile file localFile =
     (let localFile = mapSet localFile ''name'' (VString (getString (bodyFile_Name file)));
          localFile = mapSet localFile ''original_file_name''
                        (VString (getString (bodyFile_OriginalFileName file)));
          localFile = mapSet localFile ''type'' (VString (getString (bodyFile_Type file)));
          localFile = mapSet localFile ''size''
                        (VInt (case bodyFile_Size file of None \<Rightarrow> 0 | Some n \<Rightarrow> n))
      in setIfPresent localFile ''bucket_key'' (bodyFile_BucketKey file))"

fun buildTerraformBodyFilesFrom ::
  "nat \<Rightarrow> SyntheticsTestRequestBodyFile list \<Rightarrow> gomap list \<Rightarrow> panic + gomap list" where
  "buildTerraformBodyFilesFrom i [] oldLocalBodyFiles = Inr []"
| "buildTerraformBodyFilesFrom i (file # rest) oldLocalBodyFiles =
     bind (sliceIndex oldLocalBodyFiles i) (\<lambda>localFile.
     bind (buildTerraformBodyFilesFrom (Suc i) rest oldLocalBodyFiles) (\<lambda>locals.
     Inr (localBodyFile file localFile # locals)))"

definition buildTerraformBodyFiles ::
  "SyntheticsTestRequestBodyFile list \<Rightarrow> gomap list \<Rightarrow> panic + gomap list" where
  "buildTerraformBodyFiles actualBodyFiles oldLocalBodyFiles =
     buildTerraformBodyFilesFrom 0 actualBodyFiles oldLocalBodyFiles"




section \<open>The codec of the compressed fields\<close>

text \<open>
  \<^verbatim>\<open>b64.StdEncoding\<close>: the standard alphabet with \<^verbatim>\<open>=\<close> padding. A byte is a
  \<^typ>\<open>char\<close>, read as a number by \<^const>\<open>of_char\<close>.
\<close>

definition encodeStd :: string where
  "encodeStd = ''ABCDEFGHIJKLMNOPQRSTUVWXYZabcdefghijklmnopqrstuvwxyz0123456789+/''"

definition decodeMap :: "char \<Rightarrow> nat option" where
  "decodeMap c = map_of (zip encodeStd [0..<64]) c"

text \<open>
  \<^verbatim>\<open>EncodeToString\<close>: three bytes make four characters; one or two bytes left over
  make two or three characters and the padding.
\<close>

fun EncodeToString :: "string \<Rightarrow> string" where
  "EncodeToString (a # b # c # src) =
     (let val = of_char a * 65536 + of_char b * 256 + of_char c
      in [encodeStd ! (val div 262144 mod 64), encodeStd ! (val div 4096 mod 64),
          encodeStd ! (val div 64 mod 64), encodeStd ! (val mod 64)] @ EncodeToString src)"
| "EncodeToString [a, b] =
     (let val = of_char a * 65536 + of_char b * 256
      in [encodeStd ! (val div 262144 mod 64), encodeStd ! (val div 4096 mod 64),
          encodeStd ! (val div 64 mod 64), CHR ''=''])"
| "EncodeToString [a] =
     (let val = of_char a * 65536
      in [encodeStd ! (val div 262144 mod 64), encodeStd ! (val div 4096 mod 64),
          CHR ''='', CHR ''=''])"
| "EncodeToString [] = []"

text \<open>
  \<^verbatim>\<open>DecodeString\<close> returns the bytes decoded before an error together with the error.
  It reads quanta of four characters, skipping line breaks. The padding may close the
  last quantum only; what follows it is an error, reported after the bytes of that
  quantum are written. \<open>decodeFrom dbuf src\<close> continues a quantum of which \<open>dbuf\<close> is
  read; the flag says that the error is nil.
\<close>

definition isNewline :: "char \<Rightarrow> bool" where
  "isNewline c = (c = CHR 0x0A \<or> c = CHR 0x0D)"

definition quantumBytes :: "nat list \<Rightarrow> string" where
  "quantumBytes dbuf =
     (let val = dbuf ! 0 * 262144 + dbuf ! 1 * 4096 + dbuf ! 2 * 64 + dbuf ! 3
      in [char_of (val div 65536), char_of (val div 256), char_of val])"

definition paddedQuantum :: "nat list \<Rightarrow> string \<Rightarrow> string \<times> bool" where
  "paddedQuantum dbuf src =
     (take (length dbuf - 1) (quantumBytes (dbuf @ replicate (4 - length dbuf) 0)),
      dropWhile isNewline src = [])"

fun decodeFrom :: "nat list \<Rightarrow> string \<Rightarrow> string \<times> bool" where
  "decodeFrom dbuf [] = ([], dbuf = [])"
| "decodeFrom dbuf (c # src) =
     (case decodeMap c of
        Some out \<Rightarrow>
          (if length dbuf = 3
           then (let (bytes, ok) = decodeFrom [] src in (quantumBytes (dbuf @ [out]) @ bytes, ok))
           else decodeFrom (dbuf @ [out]) src)
      | None \<Rightarrow>
          (if isNewline c then decodeFrom dbuf src
           else if c \<noteq> CHR ''='' then ([], False)
           else if length dbuf < 2 then ([], False)
           else if length dbuf = 2
           then (case dropWhile isNewline src of
                   [] \<Rightarrow> ([], False)
                 | d # src' \<Rightarrow> (if d \<noteq> CHR ''='' then ([], False) else paddedQuantum dbuf src'))
           else paddedQuantum dbuf src))"

definition DecodeString :: "string \<Rightarrow> string \<times> bool" where
  "DecodeString s = decodeFrom [] s"

text \<open>
  \<^verbatim>\<open>compress/zlib\<close> stays a parameter: the bytes the writer leaves in the buffer once
  closed, whether \<^verbatim>\<open>zlib.NewReader\<close> accepts the header (its error is nil), and what
  \<^verbatim>\<open>io.ReadAll\<close> returns on the reader: the bytes read before an error, and whether the
  error is nil.
\<close>

record zlib =
  zlibWrite :: "string \<Rightarrow> string"
  zlibNewReader :: "string \<Rightarrow> bool"
  zlibReadAll :: "string \<Rightarrow> string \<times> bool"

definition compressAndEncodeValue :: "zlib \<Rightarrow> string \<Rightarrow> string" where
  "compressAndEncodeValue z v = EncodeToString (zlibWrite z v)"

text \<open>
  \<^verbatim>\<open>decompressAndDecodeValue\<close> drops the three errors. When \<^verbatim>\<open>zlib.NewReader\<close> fails
  the reader is nil, and \<^verbatim>\<open>zl.Close\<close> on it panics.
\<close>

definition decompressAndDecodeValue :: "zlib \<Rightarrow> string \<Rightarrow> panic + string" where
  "decompressAndDecodeValue z v =
     (let decodedValue = fst (DecodeString v)
      in if zlibNewReader z decodedValue
         then Inr (fst (zlibReadAll z decodedValue))
         else Inl NilDereference)"

text \<open>
  A zlib to run the codec on: the writer emits the header and one final stored block
  (RFC 1950 and RFC 1951, for less than 65536 bytes), the reader accepts a header
  without a preset dictionary and inflates one final stored block, checking the
  Adler-32 sum that follows it.
\<close>

definition adler32 :: "string \<Rightarrow> nat" where
  "adler32 bs =
     (let (a, b) = foldl (\<lambda>(a, b) c. let a' = (a + of_char c) mod 65521
                                       in (a', (b + a') mod 65521)) (1, 0) bs
      in b * 65536 + a)"

definition be32 :: "nat \<Rightarrow> string" where
  "be32 n = [char_of (n div 16777216), char_of (n div 65536), char_of (n div 256), char_of n]"

definition le16 :: "nat \<Rightarrow> string" where
  "le16 n = [char_of n, char_of (n div 256)]"

definition storedWrite :: "string \<Rightarrow> string" where
  "storedWrite bs =
     [CHR 0x78, CHR 0x01, CHR 0x01] @ le16 (length bs) @ le16 (65535 - length bs) @ bs
       @ be32 (adler32 bs)"

definition storedNewReader :: "string \<Rightarrow> bool" where
  "storedNewReader bs =
     (case bs of
        cmf # flg # _ \<Rightarrow>
          (of_char cmf :: nat) mod 16 = 8 \<and> (of_char cmf :: nat) div 16 \<le> 7
          \<and> ((of_char cmf :: nat) * 256 + of_char flg) mod 31 = 0
          \<and> (of_char flg :: nat) div 32 mod 2 = 0
      | _ \<Rightarrow> False)"

definition storedReadAll :: "string \<Rightarrow> string \<times> bool" where
  "storedReadAll bs =
     (case drop 2 bs of
        h # l0 # l1 # n0 # n1 # rest \<Rightarrow>
          (let len = (of_char l0 :: nat) + 256 * of_char l1;
               nlen = (of_char n0 :: nat) + 256 * of_char n1
           in if (of_char h :: nat) mod 8 \<noteq> 1 \<or> len + nlen \<noteq> 65535 then ([], False)
              else if length rest < len then (rest, False)
              else (take len rest, take 4 (drop len rest) = be32 (adler32 (take len rest))))
      | _ \<Rightarrow> ([], False))"

definition storedZlib :: zlib where
  "storedZlib =
     \<lparr>zlibWrite = storedWrite, zlibNewReader = storedNewReader, zlibReadAll = storedReadAll\<rparr>"

section \<open>A library to run the builders on\<close>

text \<open>
  An instance of the library parameters for concrete runs: \<^verbatim>\<open>ParseFloat\<close> knows the
  float64 of two numerals (42 and 0.5, as bit patterns) and rejects every other string,
  the enum constructors accept the values of the API.
\<close>

definition exampleLib :: lib where
  "exampleLib =
     \<lparr>ParseFloat = (\<lambda>s. if s = ''42'' then (0x4045000000000000, True)
                          else if s = ''0.5'' then (0x3FE0000000000000, True)
                          else (0, False)),
      NewSyntheticsAssertionJSONSchemaMetaSchemaFromValue =
        (\<lambda>s. if s \<in> set [''draft-07'', ''draft-06''] then Inr s
              else Inl (''invalid value '' @ s)),
      NewSyntheticsBasicAuthOauthTokenApiAuthenticationFromValue =
        (\<lambda>s. if s \<in> set [''header'', ''body''] then Inr s
              else Inl (''invalid value '' @ s))\<rparr>"

section \<open>Properties\<close>

lemma bind_Inr [simp]: "bind (Inr x) f = f x"
  by (simp add: bind_def)

lemma bind_Inl [simp]: "bind (Inl e) f = Inl e"
  by (simp add: bind_def)

lemma asString_VString [simp]: "asString (VString s) = Inr s"
  by (simp add: asString_def)

lemma asList_VList [simp]: "asList (VList xs) = Inr xs"
  by (simp add: asList_def)

lemma asMap_VMap [simp]: "asMap (VMap m) = Inr m"
  by (simp add: asMap_def)

lemma isHexChar_hexDigit: "n < 16 \<Longrightarrow> isHexChar (hexDigit n)"
proof -
  assume "n < 16"
  then have "n \<in> set [0..<16]" by simp
  moreover have "\<forall>k \<in> set [0..<16]. isHexChar (hexDigit k)"
    by (simp add: upt_rec isHexChar_def hexDigit_def)
  ultimately show ?thesis by blast
qed

lemma hexByte_hex: "list_all isHexChar (hexByte b)"
proof -
  have "unat b < 256" using unsigned_less [of b] by simp
  then have "unat b div 16 < 16" by simp
  then show ?thesis by (simp add: hexByte_def isHexChar_hexDigit)
qed

lemma concat_hexByte_length: "length (concat (map hexByte bs)) = 2 * length bs"
  by (induction bs) (simp_all add: hexByte_def)

lemma concat_hexByte_hex: "list_all isHexChar (concat (map hexByte bs))"
  by (induction bs) (simp_all add: hexByte_hex)

lemma length_digestBytes: "length (digestBytes w) = 32"
  by (simp add: digestBytes_def)

lemma isCertHash_ConvertToSha256: "isCertHash (ConvertToSha256 sum256 content)"
  by (simp add: isCertHash_def ConvertToSha256_def concat_hexByte_length
      concat_hexByte_hex length_digestBytes)

text \<open>
  C5. Digest stability: \<^verbatim>\<open>getCertificateStateValue\<close> is idempotent, and a content
  that is already digest-shaped (64 hexadecimal characters) is returned as it is.
\<close>

theorem getCertificateStateValue_idempotent:
  "getCertificateStateValue sum256 (getCertificateStateValue sum256 c)
     = getCertificateStateValue sum256 c
   \<and> (isCertHash c \<longrightarrow> getCertificateStateValue sum256 c = c)"
  by (simp add: getCertificateStateValue_def isCertHash_ConvertToSha256)

theorem getCertificateStateValue_idempotent_witness:
  "isCertHash (replicate 64 (CHR ''a''))
   \<and> getCertificateStateValue (\<lambda>_. 0) (replicate 64 (CHR ''a'')) = replicate 64 (CHR ''a'')
   \<and> \<not> isCertHash ''-----BEGIN CERTIFICATE-----''
   \<and> getCertificateStateValue (\<lambda>_. 0)
        (getCertificateStateValue (\<lambda>_. 0) ''-----BEGIN CERTIFICATE-----'')
      = getCertificateStateValue (\<lambda>_. 0) ''-----BEGIN CERTIFICATE-----''"
proof -
  have h: "isCertHash (replicate 64 (CHR ''a''))"
    by (simp add: isCertHash_def isHexChar_def list_all_iff)
  have n: "\<not> isCertHash ''-----BEGIN CERTIFICATE-----''"
    by (simp add: isCertHash_def)
  show ?thesis
    using h n getCertificateStateValue_idempotent [of "\<lambda>_. 0" "replicate 64 (CHR ''a'')"]
      getCertificateStateValue_idempotent [of "\<lambda>_. 0" "''-----BEGIN CERTIFICATE-----''"]
    by simp
qed

subsection \<open>Certificate content on build\<close>

lemma certificateItem_content:
  assumes "mapIndex clientCert ''content'' = VString c"
    and "mapIndex clientCert ''filename'' = VString f"
  shows "certificateItem clientCert =
           Inr \<lparr>Content = (if c \<noteq> '''' \<and> \<not> isCertHash c then Some c else None),
                Filename = (if f \<noteq> '''' then Some f else None),
                UpdatedAt = None\<rparr>"
  using assms by (simp add: certificateItem_def emptyCertificateItem_def)

text \<open>
  C6. Certificate content re-submission guard: on a certificate block whose \<^verbatim>\<open>cert\<close>
  and \<^verbatim>\<open>key\<close> entries hold string contents and file names,
  \<^verbatim>\<open>buildDatadogRequestCertificates\<close> leaves \<^verbatim>\<open>Content\<close> unset when the content is
  digest-shaped (or empty) and sets it to the content, unchanged, when it is raw.
\<close>

theorem buildDatadogRequestCertificates_content:
  assumes "mapIndex requestClientCertificate ''cert'' = VList (VMap clientCert # certs)"
    and "mapIndex requestClientCertificate ''key'' = VList (VMap clientKey # keys)"
    and "mapIndex clientCert ''content'' = VString c"
    and "mapIndex clientCert ''filename'' = VString cf"
    and "mapIndex clientKey ''content'' = VString k"
    and "mapIndex clientKey ''filename'' = VString kf"
  shows "\<exists>cert key.
           buildDatadogRequestCertificates requestClientCertificate
             = Inr \<lparr>Cert = Some cert, Key = Some key\<rparr>
           \<and> Content cert = (if c = '''' \<or> isCertHash c then None else Some c)
           \<and> Content key = (if k = '''' \<or> isCertHash k then None else Some k)"
  using assms
  by (simp add: buildDatadogRequestCertificates_def certificateItem_content sliceIndex_def)

theorem buildDatadogRequestCertificates_content_witness:
  "\<exists>cert key.
     buildDatadogRequestCertificates
       [(''cert'', VList [VMap [(''content'', VString (replicate 64 (CHR ''a''))),
                                (''filename'', VString ''c.pem'')]]),
        (''key'', VList [VMap [(''content'', VString ''secret key''),
                               (''filename'', VString '''')]])]
       = Inr \<lparr>Cert = Some cert, Key = Some key\<rparr>
     \<and> Content cert = None \<and> Content key = Some ''secret key''"
proof -
  have h: "isCertHash (replicate 64 (CHR ''a''))"
    by (simp add: isCertHash_def isHexChar_def list_all_iff)
  have n: "\<not> isCertHash ''secret key''"
    by (simp add: isCertHash_def)
  show ?thesis
    using buildDatadogRequestCertificates_content
      [of "[(''cert'', VList [VMap [(''content'', VString (replicate 64 (CHR ''a''))),
                                    (''filename'', VString ''c.pem'')]]),
            (''key'', VList [VMap [(''content'', VString ''secret key''),
                                   (''filename'', VString '''')]])]"
       "[(''content'', VString (replicate 64 (CHR ''a''))), (''filename'', VString ''c.pem'')]"
       "[]"
       "[(''content'', VString ''secret key''), (''filename'', VString '''')]"
       "[]" "replicate 64 (CHR ''a'')" "''c.pem''" "''secret key''" "''''"]
      h n
    by (simp add: mapIndex_def)
qed

subsection \<open>Which arm of a union is built\<close>

lemma bind_eq_Inr: "bind m f = Inr y \<longleftrightarrow> (\<exists>x. m = Inr x \<and> f x = Inr y)"
  by (cases m) simp_all

lemma asMap_eq_Inr: "asMap v = Inr m \<longleftrightarrow> v = VMap m"
  by (cases v) (simp_all add: asMap_def)

lemma asString_eq_Inr: "asString v = Inr s \<longleftrightarrow> v = VString s"
  by (cases v) (simp_all add: asString_def)

lemmas basicAuth_wrappers =
  SyntheticsBasicAuthWebAsSyntheticsBasicAuth_def
  SyntheticsBasicAuthSigv4AsSyntheticsBasicAuth_def
  SyntheticsBasicAuthNTLMAsSyntheticsBasicAuth_def
  SyntheticsBasicAuthDigestAsSyntheticsBasicAuth_def
  SyntheticsBasicAuthOauthClientAsSyntheticsBasicAuth_def
  SyntheticsBasicAuthOauthROPAsSyntheticsBasicAuth_def

lemma web_built:
  assumes "mapIndex m ''type'' = VString ''web''"
    and "mapIndex m ''username'' = VString u" and "u \<noteq> ''''"
    and "mapIndex m ''password'' = VString p"
  shows "buildDatadogBasicAuth l m =
           Inr (emptyBasicAuth\<lparr>BasicAuthWeb :=
                  Some \<lparr>web_Password = p, web_Type = Some ''web'', web_Username = u\<rparr>\<rparr>, [])"
  using assms
  by (simp add: buildDatadogBasicAuth_def SyntheticsBasicAuthWebAsSyntheticsBasicAuth_def
      NewSyntheticsBasicAuthWebWithDefaults_def)

lemma sigv4_built:
  assumes "mapIndex m ''type'' = VString ''sigv4''"
    and "mapIndex m ''access_key'' = VString ak" and "ak \<noteq> ''''"
    and "mapIndex m ''secret_key'' = VString sk" and "sk \<noteq> ''''"
    and "mapIndex m ''region'' = VString r"
    and "mapIndex m ''service_name'' = VString sn"
    and "mapIndex m ''session_token'' = VString st"
  shows "buildDatadogBasicAuth l m =
           Inr (emptyBasicAuth\<lparr>BasicAuthSigv4 :=
                  Some \<lparr>sigv4_AccessKey = ak, sigv4_Region = Some r, sigv4_SecretKey = sk,
                        sigv4_ServiceName = Some sn, sigv4_SessionToken = Some st,
                        sigv4_Type = ''sigv4''\<rparr>\<rparr>, [])"
  using assms
  by (simp add: buildDatadogBasicAuth_def SyntheticsBasicAuthSigv4AsSyntheticsBasicAuth_def
      NewSyntheticsBasicAuthSigv4_def)

lemma ntlm_built:
  assumes "mapIndex m ''type'' = VString ''ntlm''"
    and "mapIndex m ''username'' = VString u"
    and "mapIndex m ''password'' = VString p"
    and "mapIndex m ''domain'' = VString d"
    and "mapIndex m ''workstation'' = VString w"
  shows "buildDatadogBasicAuth l m =
           Inr (emptyBasicAuth\<lparr>BasicAuthNTLM :=
                  Some \<lparr>ntlm_Domain = Some d, ntlm_Password = Some p, ntlm_Type = ''ntlm'',
                        ntlm_Username = Some u, ntlm_Workstation = Some w\<rparr>\<rparr>, [])"
  using assms
  by (simp add: buildDatadogBasicAuth_def SyntheticsBasicAuthNTLMAsSyntheticsBasicAuth_def
      NewSyntheticsBasicAuthNTLM_def)

lemma oauthClient_built:
  assumes "mapIndex m ''type'' = VString ''oauth-client''"
    and "mapIndex m ''token_api_authentication'' = VString ta"
    and "mapIndex m ''access_token_url'' = VString url"
    and "mapIndex m ''client_id'' = VString cid"
    and "mapIndex m ''client_secret'' = VString cs"
  shows "buildDatadogBasicAuth l m =
           Inr (emptyBasicAuth\<lparr>BasicAuthOauthClient :=
                  Some \<lparr>oauthClient_AccessTokenUrl = url,
                        oauthClient_Audience = nonEmptyString m ''audience'',
                        oauthClient_ClientId = cid, oauthClient_ClientSecret = cs,
                        oauthClient_Resource = nonEmptyString m ''resource'',
                        oauthClient_Scope = nonEmptyString m ''scope'',
                        oauthClient_TokenApiAuthentication = tokenApiAuthenticationValue l ta,
                        oauthClient_Type = ''oauth-client''\<rparr>\<rparr>, [])"
  using assms
  by (simp add: buildDatadogBasicAuth_def
      SyntheticsBasicAuthOauthClientAsSyntheticsBasicAuth_def
      NewSyntheticsBasicAuthOauthClient_def)

lemma oauthROP_built:
  assumes "mapIndex m ''type'' = VString ''oauth-rop''"
    and "mapIndex m ''token_api_authentication'' = VString ta"
    and "mapIndex m ''access_token_url'' = VString url"
    and "mapIndex m ''password'' = VString p"
    and "mapIndex m ''username'' = VString u"
    and "mapIndex m ''client_id'' = VString cid"
    and "mapIndex m ''client_secret'' = VString cs"
  shows "buildDatadogBasicAuth l m =
           Inr (emptyBasicAuth\<lparr>BasicAuthOauthROP :=
                  Some \<lparr>oauthROP_AccessTokenUrl = url,
                        oauthROP_Audience = nonEmptyString m ''audience'',
                        oauthROP_ClientId = Some cid, oauthROP_ClientSecret = Some cs,
                        oauthROP_Password = p,
                        oauthROP_Resource = nonEmptyString m ''resource'',
                        oauthROP_Scope = nonEmptyString m ''scope'',
                        oauthROP_TokenApiAuthentication = tokenApiAuthenticationValue l ta,
                        oauthROP_Type = ''oauth-rop'', oauthROP_Username = u\<rparr>\<rparr>, [])"
  using assms
  by (simp add: buildDatadogBasicAuth_def
      SyntheticsBasicAuthOauthROPAsSyntheticsBasicAuth_def
      NewSyntheticsBasicAuthOauthROP_def)

lemma digest_built:
  assumes "mapIndex m ''type'' = VString ''digest''"
    and "mapIndex m ''password'' = VString p"
    and "mapIndex m ''username'' = VString u"
  shows "buildDatadogBasicAuth l m =
           Inr (emptyBasicAuth\<lparr>BasicAuthDigest :=
                  Some \<lparr>digest_Password = p, digest_Type = ''digest'',
                        digest_Username = u\<rparr>\<rparr>, [])"
  using assms
  by (simp add: buildDatadogBasicAuth_def SyntheticsBasicAuthDigestAsSyntheticsBasicAuth_def
      NewSyntheticsBasicAuthDigest_def)

lemma buildDatadogAssertions_concat:
  "buildDatadogAssertions l attr = Inr (assertions, lg) \<longleftrightarrow>
     (\<exists>parts. map (buildDatadogAssertion l) attr = map Inr parts
        \<and> assertions = concat (map fst parts) \<and> lg = concat (map snd parts))"
proof (induction attr arbitrary: assertions lg)
  case Nil
  show ?case by auto
next
  case (Cons x attr)
  show ?case
  proof
    assume "buildDatadogAssertions l (x # attr) = Inr (assertions, lg)"
    then obtain as1 lg1 as2 lg2
      where x: "buildDatadogAssertion l x = Inr (as1, lg1)"
        and r: "buildDatadogAssertions l attr = Inr (as2, lg2)"
        and e: "assertions = as1 @ as2" "lg = lg1 @ lg2"
      by (auto simp: bind_eq_Inr)
    from r Cons.IH [of as2 lg2] obtain parts
      where p: "map (buildDatadogAssertion l) attr = map Inr parts"
        "as2 = concat (map fst parts)" "lg2 = concat (map snd parts)"
      by blast
    show "\<exists>parts. map (buildDatadogAssertion l) (x # attr) = map Inr parts
        \<and> assertions = concat (map fst parts) \<and> lg = concat (map snd parts)"
      using x p e by (intro exI [of _ "(as1, lg1) # parts"]) simp
  next
    assume "\<exists>parts. map (buildDatadogAssertion l) (x # attr) = map Inr parts
        \<and> assertions = concat (map fst parts) \<and> lg = concat (map snd parts)"
    then obtain parts where p: "map (buildDatadogAssertion l) (x # attr) = map Inr parts"
      "assertions = concat (map fst parts)" "lg = concat (map snd parts)"
      by blast
    from p(1) obtain p1 ps where ps: "parts = p1 # ps"
      "buildDatadogAssertion l x = Inr p1" "map (buildDatadogAssertion l) attr = map Inr ps"
      by (cases parts) auto
    from ps(3) Cons.IH [of "concat (map fst ps)" "concat (map snd ps)"]
    have "buildDatadogAssertions l attr = Inr (concat (map fst ps), concat (map snd ps))"
      by blast
    with ps p show "buildDatadogAssertions l (x # attr) = Inr (assertions, lg)"
      by (cases p1) simp
  qed
qed

lemma javascript_built:
  assumes "map_of am ''type'' = Some (VString ''javascript'')"
    and "map_of am ''code'' = Some (VString c)"
  shows "buildDatadogAssertion l (VMap am) =
           Inr ([emptyAssertion\<lparr>AssertionJavascript :=
                   Some \<lparr>javascript_Code = c, javascript_Type = ''javascript''\<rparr>\<rparr>], [])"
  using assms
  by (simp add: buildDatadogAssertion_def presentString_def
      SyntheticsAssertionJavascriptAsSyntheticsAssertion_def
      NewSyntheticsAssertionJavascriptWithDefaults_def)

lemma jsonSchema_built:
  assumes "map_of am ''type'' = Some (VString t)" and "t \<noteq> ''javascript''"
    and "map_of am ''operator'' = Some (VString ''validatesJSONSchema'')"
    and "mapIndex am ''targetjsonschema'' = VList (first # rest)"
    and "jsonSchemaSubTarget l first = Inr (subTarget, lg)"
  shows "\<exists>lg'. buildDatadogAssertion l (VMap am) =
           Inr ([emptyAssertion\<lparr>AssertionJSONSchemaTarget :=
                   Some \<lparr>jsonSchema_Operator = ''validatesJSONSchema'',
                         jsonSchema_Target = Some subTarget, jsonSchema_Type = t\<rparr>\<rparr>], lg')"
  using assms
  by (simp add: buildDatadogAssertion_def jsonSchemaAssertion_def nonEmptyList_def
      SyntheticsAssertionJSONSchemaTargetAsSyntheticsAssertion_def
      NewSyntheticsAssertionJSONSchemaTarget_def)

lemma jsonPath_built:
  assumes "map_of am ''type'' = Some (VString t)" and "t \<noteq> ''javascript''"
    and "map_of am ''operator'' = Some (VString ''validatesJSONPath'')"
    and "mapIndex am ''targetjsonpath'' = VList (first # rest)"
    and "jsonPathSubTarget l first = Inr subTarget"
  shows "\<exists>lg'. buildDatadogAssertion l (VMap am) =
           Inr ([emptyAssertion\<lparr>AssertionJSONPathTarget :=
                   Some \<lparr>jsonPath_Operator = ''validatesJSONPath'',
                         jsonPath_Property = nonEmptyString am ''property'',
                         jsonPath_Target = Some subTarget, jsonPath_Type = t\<rparr>\<rparr>], lg')"
  using assms
  by (simp add: buildDatadogAssertion_def jsonPathAssertion_def nonEmptyList_def
      SyntheticsAssertionJSONPathTargetAsSyntheticsAssertion_def
      NewSyntheticsAssertionJSONPathTarget_def)

lemma xPath_built:
  assumes "map_of am ''type'' = Some (VString t)" and "t \<noteq> ''javascript''"
    and "map_of am ''operator'' = Some (VString ''validatesXPath'')"
    and "mapIndex am ''targetxpath'' = VList (first # rest)"
    and "xPathSubTarget l first = Inr subTarget"
  shows "\<exists>lg'. buildDatadogAssertion l (VMap am) =
           Inr ([emptyAssertion\<lparr>AssertionXPathTarget :=
                   Some \<lparr>xPath_Operator = ''validatesXPath'',
                         xPath_Property = nonEmptyString am ''property'',
                         xPath_Target = Some subTarget, xPath_Type = t\<rparr>\<rparr>], lg')"
  using assms
  by (simp add: buildDatadogAssertion_def xPathAssertion_def nonEmptyList_def
      SyntheticsAssertionXPathTargetAsSyntheticsAssertion_def
      NewSyntheticsAssertionXPathTarget_def)

lemma plain_built:
  assumes "map_of am ''type'' = Some (VString t)" and "t \<noteq> ''javascript''"
    and "map_of am ''operator'' = Some (VString op)"
    and "op \<notin> set [''validatesJSONSchema'', ''validatesJSONPath'', ''validatesXPath'']"
    and "map_of am ''target'' = Some (VString tv)"
  shows "\<exists>lg'. buildDatadogAssertion l (VMap am) =
           Inr ([emptyAssertion\<lparr>AssertionTarget :=
                   Some \<lparr>target_Operator = op,
                         target_Property = nonEmptyString am ''property'',
                         target_Target =
                           (if isTargetOfTypeInt t op then VInt (fst (Atoi tv))
                            else if t = ''packetLossPercentage''
                            then VFloat (fst (ParseFloat l tv))
                            else VString tv),
                         target_TimingsScope = nonEmptyString am ''timings_scope'',
                         target_Type = t\<rparr>\<rparr>], lg')"
  using assms
  by (simp add: buildDatadogAssertion_def plainAssertion_def plainTarget_def
      SyntheticsAssertionTargetAsSyntheticsAssertion_def
      NewSyntheticsAssertionTargetWithDefaults_def)

lemma buildDatadogBasicAuth_arm:
  assumes "buildDatadogBasicAuth l m = Inr (auth, lg)"
  shows "auth =
    (if mapIndex m ''type'' = VString ''web''
     then emptyBasicAuth\<lparr>BasicAuthWeb := BasicAuthWeb auth\<rparr>
     else if mapIndex m ''type'' = VString ''sigv4''
     then emptyBasicAuth\<lparr>BasicAuthSigv4 := BasicAuthSigv4 auth\<rparr>
     else if mapIndex m ''type'' = VString ''ntlm''
     then emptyBasicAuth\<lparr>BasicAuthNTLM := BasicAuthNTLM auth\<rparr>
     else if mapIndex m ''type'' = VString ''oauth-client''
     then emptyBasicAuth\<lparr>BasicAuthOauthClient := BasicAuthOauthClient auth\<rparr>
     else if mapIndex m ''type'' = VString ''oauth-rop''
     then emptyBasicAuth\<lparr>BasicAuthOauthROP := BasicAuthOauthROP auth\<rparr>
     else if mapIndex m ''type'' = VString ''digest''
     then emptyBasicAuth\<lparr>BasicAuthDigest := BasicAuthDigest auth\<rparr>
     else emptyBasicAuth)"
  using assms
  by (auto simp: buildDatadogBasicAuth_def bind_eq_Inr emptyBasicAuth_def basicAuth_wrappers
      split: if_splits)

lemma jsonSchemaAssertion_arm:
  "jsonSchemaAssertion l am op t = Inr (a, lg)
   \<Longrightarrow> \<exists>v. a = emptyAssertion\<lparr>AssertionJSONSchemaTarget := Some v\<rparr>"
  by (auto simp: jsonSchemaAssertion_def bind_eq_Inr
      SyntheticsAssertionJSONSchemaTargetAsSyntheticsAssertion_def)

lemma jsonPathAssertion_arm:
  "jsonPathAssertion l am op t = Inr (a, lg)
   \<Longrightarrow> \<exists>v. a = emptyAssertion\<lparr>AssertionJSONPathTarget := Some v\<rparr>"
  by (auto simp: jsonPathAssertion_def bind_eq_Inr
      SyntheticsAssertionJSONPathTargetAsSyntheticsAssertion_def)

lemma xPathAssertion_arm:
  "xPathAssertion l am op t = Inr (a, lg)
   \<Longrightarrow> \<exists>v. a = emptyAssertion\<lparr>AssertionXPathTarget := Some v\<rparr>"
  by (auto simp: xPathAssertion_def bind_eq_Inr
      SyntheticsAssertionXPathTargetAsSyntheticsAssertion_def)

lemma plainAssertion_arm:
  "plainAssertion l am op t = Inr (a, lg)
   \<Longrightarrow> \<exists>v. a = emptyAssertion\<lparr>AssertionTarget := Some v\<rparr>"
  by (auto simp: plainAssertion_def bind_eq_Inr
      SyntheticsAssertionTargetAsSyntheticsAssertion_def)

lemma buildDatadogAssertion_shape:
  assumes "buildDatadogAssertion l (VMap am) = Inr (as, lg)"
  shows "if map_of am ''type'' = None then as = []
     else if map_of am ''type'' = Some (VString ''javascript'')
     then \<exists>v. as = [emptyAssertion\<lparr>AssertionJavascript := Some v\<rparr>]
     else if map_of am ''operator'' = None then as = []
     else if map_of am ''operator'' = Some (VString ''validatesJSONSchema'')
     then \<exists>v. as = [emptyAssertion\<lparr>AssertionJSONSchemaTarget := Some v\<rparr>]
     else if map_of am ''operator'' = Some (VString ''validatesJSONPath'')
     then \<exists>v. as = [emptyAssertion\<lparr>AssertionJSONPathTarget := Some v\<rparr>]
     else if map_of am ''operator'' = Some (VString ''validatesXPath'')
     then \<exists>v. as = [emptyAssertion\<lparr>AssertionXPathTarget := Some v\<rparr>]
     else \<exists>v. as = [emptyAssertion\<lparr>AssertionTarget := Some v\<rparr>]"
proof (cases "map_of am ''type''")
  case None
  with assms show ?thesis
    by (simp add: buildDatadogAssertion_def)
next
  case (Some tv)
  with assms obtain t where t: "map_of am ''type'' = Some (VString t)"
    by (auto simp: buildDatadogAssertion_def bind_eq_Inr asString_eq_Inr)
  show ?thesis
  proof (cases "t = ''javascript''")
    case True
    with assms t show ?thesis
      by (auto simp: buildDatadogAssertion_def bind_eq_Inr
          SyntheticsAssertionJavascriptAsSyntheticsAssertion_def)
  next
    case nj: False
    show ?thesis
    proof (cases "map_of am ''operator''")
      case None
      with assms t nj show ?thesis
        by (simp add: buildDatadogAssertion_def)
    next
      case (Some ov)
      with assms t nj obtain op where op: "map_of am ''operator'' = Some (VString op)"
        by (auto simp: buildDatadogAssertion_def bind_eq_Inr asString_eq_Inr)
      from assms t op nj obtain a
        where r: "(if op = ''validatesJSONSchema'' then jsonSchemaAssertion l am op t
              else if op = ''validatesJSONPath'' then jsonPathAssertion l am op t
              else if op = ''validatesXPath'' then xPathAssertion l am op t
              else plainAssertion l am op t) = Inr (a, lg)" and as: "as = [a]"
        by (auto simp: buildDatadogAssertion_def bind_eq_Inr)
      show ?thesis
      proof (cases "op = ''validatesJSONSchema''")
        case True
        with r t op nj as show ?thesis
          by (simp add: jsonSchemaAssertion_arm)
      next
        case ns: False
        show ?thesis
        proof (cases "op = ''validatesJSONPath''")
          case True
          with r t op nj ns as show ?thesis
            by (simp add: jsonPathAssertion_arm)
        next
          case np: False
          show ?thesis
          proof (cases "op = ''validatesXPath''")
            case True
            with r t op nj ns np as show ?thesis
              by (simp add: xPathAssertion_arm)
          next
            case nx: False
            with r t op nj ns np as show ?thesis
              by (simp add: plainAssertion_arm)
          qed
        qed
      qed
    qed
  qed
qed

lemma buildDatadogAssertion_map:
  "buildDatadogAssertion l x = Inr p \<Longrightarrow> \<exists>am. x = VMap am"
  by (auto simp: buildDatadogAssertion_def bind_eq_Inr asMap_eq_Inr)

lemma buildDatadogAssertion_shape_map:
  assumes "buildDatadogAssertion l x = Inr (as, lg)"
  shows "\<exists>xm. x = VMap xm \<and> (\<forall>a \<in> set as. AssertionBodyHashTarget a = None) \<and>
           (if map_of xm ''type'' = None then as = []
            else if map_of xm ''type'' = Some (VString ''javascript'')
            then \<exists>v. as = [emptyAssertion\<lparr>AssertionJavascript := Some v\<rparr>]
            else if map_of xm ''operator'' = None then as = []
            else if map_of xm ''operator'' = Some (VString ''validatesJSONSchema'')
            then \<exists>v. as = [emptyAssertion\<lparr>AssertionJSONSchemaTarget := Some v\<rparr>]
            else if map_of xm ''operator'' = Some (VString ''validatesJSONPath'')
            then \<exists>v. as = [emptyAssertion\<lparr>AssertionJSONPathTarget := Some v\<rparr>]
            else if map_of xm ''operator'' = Some (VString ''validatesXPath'')
            then \<exists>v. as = [emptyAssertion\<lparr>AssertionXPathTarget := Some v\<rparr>]
            else \<exists>v. as = [emptyAssertion\<lparr>AssertionTarget := Some v\<rparr>])"
proof -
  from buildDatadogAssertion_map [OF assms] obtain xm where x: "x = VMap xm" by blast
  from assms [unfolded x] have "if map_of xm ''type'' = None then as = []
            else if map_of xm ''type'' = Some (VString ''javascript'')
            then \<exists>v. as = [emptyAssertion\<lparr>AssertionJavascript := Some v\<rparr>]
            else if map_of xm ''operator'' = None then as = []
            else if map_of xm ''operator'' = Some (VString ''validatesJSONSchema'')
            then \<exists>v. as = [emptyAssertion\<lparr>AssertionJSONSchemaTarget := Some v\<rparr>]
            else if map_of xm ''operator'' = Some (VString ''validatesJSONPath'')
            then \<exists>v. as = [emptyAssertion\<lparr>AssertionJSONPathTarget := Some v\<rparr>]
            else if map_of xm ''operator'' = Some (VString ''validatesXPath'')
            then \<exists>v. as = [emptyAssertion\<lparr>AssertionXPathTarget := Some v\<rparr>]
            else \<exists>v. as = [emptyAssertion\<lparr>AssertionTarget := Some v\<rparr>]"
    by (rule buildDatadogAssertion_shape)
  then have shape: "x = VMap xm \<and>
           (if map_of xm ''type'' = None then as = []
            else if map_of xm ''type'' = Some (VString ''javascript'')
            then \<exists>v. as = [emptyAssertion\<lparr>AssertionJavascript := Some v\<rparr>]
            else if map_of xm ''operator'' = None then as = []
            else if map_of xm ''operator'' = Some (VString ''validatesJSONSchema'')
            then \<exists>v. as = [emptyAssertion\<lparr>AssertionJSONSchemaTarget := Some v\<rparr>]
            else if map_of xm ''operator'' = Some (VString ''validatesJSONPath'')
            then \<exists>v. as = [emptyAssertion\<lparr>AssertionJSONPathTarget := Some v\<rparr>]
            else if map_of xm ''operator'' = Some (VString ''validatesXPath'')
            then \<exists>v. as = [emptyAssertion\<lparr>AssertionXPathTarget := Some v\<rparr>]
            else \<exists>v. as = [emptyAssertion\<lparr>AssertionTarget := Some v\<rparr>])"
    using x by simp
  then have "\<forall>a \<in> set as. AssertionBodyHashTarget a = None"
    by (auto simp: emptyAssertion_def split: if_splits)
  with shape show ?thesis by blast
qed

text \<open>
  C1. Variant exclusivity, as the code selects the variants.
  \<^verbatim>\<open>buildDatadogBasicAuth\<close> on a well-typed map of a scheme (\<^verbatim>\<open>web\<close> with a user name
  that is not empty, \<^verbatim>\<open>sigv4\<close> with an access key and a secret key that are not empty,
  \<^verbatim>\<open>ntlm\<close>, \<^verbatim>\<open>oauth-client\<close>, \<^verbatim>\<open>oauth-rop\<close>, \<^verbatim>\<open>digest\<close>) returns the union whose arm
  of that scheme is populated from the fields of the map, every other arm nil, and logs
  nothing; and whatever it returns has every arm nil but the one its \<^verbatim>\<open>type\<close> names.
  \<^verbatim>\<open>buildDatadogAssertions\<close> returns, in order, what the loop body builds from each map
  of the list. From a map the body builds nothing without a type, or without an operator
  when the type is not \<^verbatim>\<open>javascript\<close>; else exactly one assertion with exactly one arm
  populated: the JavaScript arm under the type \<^verbatim>\<open>javascript\<close>, else the arm of the
  operator \<^verbatim>\<open>validatesJSONSchema\<close>, \<^verbatim>\<open>validatesJSONPath\<close> or \<^verbatim>\<open>validatesXPath\<close>, else,
  for every other operator, the plain target arm, each with the fields of the map. The
  body-hash arm is never populated: the type \<^verbatim>\<open>bodyHash\<close> with the operators
  \<^verbatim>\<open>md5\<close>, \<^verbatim>\<open>sha1\<close> and \<^verbatim>\<open>sha256\<close> is built on the plain target arm.
\<close>

theorem variant_exclusivity:
  "(mapIndex m ''type'' = VString ''web''
      \<and> mapIndex m ''username'' = VString u \<and> u \<noteq> ''''
      \<and> mapIndex m ''password'' = VString p
    \<longrightarrow> buildDatadogBasicAuth l m =
         Inr (emptyBasicAuth\<lparr>BasicAuthWeb :=
                Some \<lparr>web_Password = p, web_Type = Some ''web'', web_Username = u\<rparr>\<rparr>, []))
   \<and> (mapIndex m ''type'' = VString ''sigv4''
      \<and> mapIndex m ''access_key'' = VString ak \<and> ak \<noteq> ''''
      \<and> mapIndex m ''secret_key'' = VString sk \<and> sk \<noteq> ''''
      \<and> mapIndex m ''region'' = VString r
      \<and> mapIndex m ''service_name'' = VString sn
      \<and> mapIndex m ''session_token'' = VString st
    \<longrightarrow> buildDatadogBasicAuth l m =
         Inr (emptyBasicAuth\<lparr>BasicAuthSigv4 :=
                Some \<lparr>sigv4_AccessKey = ak, sigv4_Region = Some r, sigv4_SecretKey = sk,
                      sigv4_ServiceName = Some sn, sigv4_SessionToken = Some st,
                      sigv4_Type = ''sigv4''\<rparr>\<rparr>, []))
   \<and> (mapIndex m ''type'' = VString ''ntlm''
      \<and> mapIndex m ''username'' = VString u
      \<and> mapIndex m ''password'' = VString p
      \<and> mapIndex m ''domain'' = VString d
      \<and> mapIndex m ''workstation'' = VString w
    \<longrightarrow> buildDatadogBasicAuth l m =
         Inr (emptyBasicAuth\<lparr>BasicAuthNTLM :=
                Some \<lparr>ntlm_Domain = Some d, ntlm_Password = Some p, ntlm_Type = ''ntlm'',
                      ntlm_Username = Some u, ntlm_Workstation = Some w\<rparr>\<rparr>, []))
   \<and> (mapIndex m ''type'' = VString ''oauth-client''
      \<and> mapIndex m ''token_api_authentication'' = VString ta
      \<and> mapIndex m ''access_token_url'' = VString url
      \<and> mapIndex m ''client_id'' = VString cid
      \<and> mapIndex m ''client_secret'' = VString cs
    \<longrightarrow> buildDatadogBasicAuth l m =
         Inr (emptyBasicAuth\<lparr>BasicAuthOauthClient :=
                Some \<lparr>oauthClient_AccessTokenUrl = url,
                      oauthClient_Audience = nonEmptyString m ''audience'',
                      oauthClient_ClientId = cid, oauthClient_ClientSecret = cs,
                      oauthClient_Resource = nonEmptyString m ''resource'',
                      oauthClient_Scope = nonEmptyString m ''scope'',
                      oauthClient_TokenApiAuthentication = tokenApiAuthenticationValue l ta,
                      oauthClient_Type = ''oauth-client''\<rparr>\<rparr>, []))
   \<and> (mapIndex m ''type'' = VString ''oauth-rop''
      \<and> mapIndex m ''token_api_authentication'' = VString ta
      \<and> mapIndex m ''access_token_url'' = VString url
      \<and> mapIndex m ''password'' = VString p
      \<and> mapIndex m ''username'' = VString u
      \<and> mapIndex m ''client_id'' = VString cid
      \<and> mapIndex m ''client_secret'' = VString cs
    \<longrightarrow> buildDatadogBasicAuth l m =
         Inr (emptyBasicAuth\<lparr>BasicAuthOauthROP :=
                Some \<lparr>oauthROP_AccessTokenUrl = url,
                      oauthROP_Audience = nonEmptyString m ''audience'',
                      oauthROP_ClientId = Some cid, oauthROP_ClientSecret = Some cs,
                      oauthROP_Password = p,
                      oauthROP_Resource = nonEmptyString m ''resource'',
                      oauthROP_Scope = nonEmptyString m ''scope'',
                      oauthROP_TokenApiAuthentication = tokenApiAuthenticationValue l ta,
                      oauthROP_Type = ''oauth-rop'', oauthROP_Username = u\<rparr>\<rparr>, []))
   \<and> (mapIndex m ''type'' = VString ''digest''
      \<and> mapIndex m ''password'' = VString p
      \<and> mapIndex m ''username'' = VString u
    \<longrightarrow> buildDatadogBasicAuth l m =
         Inr (emptyBasicAuth\<lparr>BasicAuthDigest :=
                Some \<lparr>digest_Password = p, digest_Type = ''digest'',
                      digest_Username = u\<rparr>\<rparr>, []))
   \<and> (buildDatadogBasicAuth l m = Inr (auth, lg) \<longrightarrow>
      auth =
       (if mapIndex m ''type'' = VString ''web''
        then emptyBasicAuth\<lparr>BasicAuthWeb := BasicAuthWeb auth\<rparr>
        else if mapIndex m ''type'' = VString ''sigv4''
        then emptyBasicAuth\<lparr>BasicAuthSigv4 := BasicAuthSigv4 auth\<rparr>
        else if mapIndex m ''type'' = VString ''ntlm''
        then emptyBasicAuth\<lparr>BasicAuthNTLM := BasicAuthNTLM auth\<rparr>
        else if mapIndex m ''type'' = VString ''oauth-client''
        then emptyBasicAuth\<lparr>BasicAuthOauthClient := BasicAuthOauthClient auth\<rparr>
        else if mapIndex m ''type'' = VString ''oauth-rop''
        then emptyBasicAuth\<lparr>BasicAuthOauthROP := BasicAuthOauthROP auth\<rparr>
        else if mapIndex m ''type'' = VString ''digest''
        then emptyBasicAuth\<lparr>BasicAuthDigest := BasicAuthDigest auth\<rparr>
        else emptyBasicAuth))
   \<and> (buildDatadogAssertions l attr = Inr (assertions, lgs) \<longleftrightarrow>
        (\<exists>parts. map (buildDatadogAssertion l) attr = map Inr parts
           \<and> assertions = concat (map fst parts) \<and> lgs = concat (map snd parts)))
   \<and> (buildDatadogAssertion l x = Inr (as, lga) \<longrightarrow>
        (\<exists>xm. x = VMap xm \<and> (\<forall>a \<in> set as. AssertionBodyHashTarget a = None) \<and>
           (if map_of xm ''type'' = None then as = []
            else if map_of xm ''type'' = Some (VString ''javascript'')
            then \<exists>v. as = [emptyAssertion\<lparr>AssertionJavascript := Some v\<rparr>]
            else if map_of xm ''operator'' = None then as = []
            else if map_of xm ''operator'' = Some (VString ''validatesJSONSchema'')
            then \<exists>v. as = [emptyAssertion\<lparr>AssertionJSONSchemaTarget := Some v\<rparr>]
            else if map_of xm ''operator'' = Some (VString ''validatesJSONPath'')
            then \<exists>v. as = [emptyAssertion\<lparr>AssertionJSONPathTarget := Some v\<rparr>]
            else if map_of xm ''operator'' = Some (VString ''validatesXPath'')
            then \<exists>v. as = [emptyAssertion\<lparr>AssertionXPathTarget := Some v\<rparr>]
            else \<exists>v. as = [emptyAssertion\<lparr>AssertionTarget := Some v\<rparr>])))
   \<and> (map_of am ''type'' = Some (VString ''javascript'')
      \<and> map_of am ''code'' = Some (VString c)
    \<longrightarrow> buildDatadogAssertion l (VMap am) =
         Inr ([emptyAssertion\<lparr>AssertionJavascript :=
                 Some \<lparr>javascript_Code = c, javascript_Type = ''javascript''\<rparr>\<rparr>], []))
   \<and> (map_of am ''type'' = Some (VString t) \<and> t \<noteq> ''javascript''
      \<and> map_of am ''operator'' = Some (VString ''validatesJSONSchema'')
      \<and> mapIndex am ''targetjsonschema'' = VList (first # rest)
      \<and> jsonSchemaSubTarget l first = Inr (schemaTarget, lgt)
    \<longrightarrow> (\<exists>lg'. buildDatadogAssertion l (VMap am) =
         Inr ([emptyAssertion\<lparr>AssertionJSONSchemaTarget :=
                 Some \<lparr>jsonSchema_Operator = ''validatesJSONSchema'',
                       jsonSchema_Target = Some schemaTarget, jsonSchema_Type = t\<rparr>\<rparr>], lg')))
   \<and> (map_of am ''type'' = Some (VString t) \<and> t \<noteq> ''javascript''
      \<and> map_of am ''operator'' = Some (VString ''validatesJSONPath'')
      \<and> mapIndex am ''targetjsonpath'' = VList (first # rest)
      \<and> jsonPathSubTarget l first = Inr pathTarget
    \<longrightarrow> (\<exists>lg'. buildDatadogAssertion l (VMap am) =
         Inr ([emptyAssertion\<lparr>AssertionJSONPathTarget :=
                 Some \<lparr>jsonPath_Operator = ''validatesJSONPath'',
                       jsonPath_Property = nonEmptyString am ''property'',
                       jsonPath_Target = Some pathTarget, jsonPath_Type = t\<rparr>\<rparr>], lg')))
   \<and> (map_of am ''type'' = Some (VString t) \<and> t \<noteq> ''javascript''
      \<and> map_of am ''operator'' = Some (VString ''validatesXPath'')
      \<and> mapIndex am ''targetxpath'' = VList (first # rest)
      \<and> xPathSubTarget l first = Inr xpathTarget
    \<longrightarrow> (\<exists>lg'. buildDatadogAssertion l (VMap am) =
         Inr ([emptyAssertion\<lparr>AssertionXPathTarget :=
                 Some \<lparr>xPath_Operator = ''validatesXPath'',
                       xPath_Property = nonEmptyString am ''property'',
                       xPath_Target = Some xpathTarget, xPath_Type = t\<rparr>\<rparr>], lg')))
   \<and> (map_of am ''type'' = Some (VString t) \<and> t \<noteq> ''javascript''
      \<and> map_of am ''operator'' = Some (VString op)
      \<and> op \<notin> set [''validatesJSONSchema'', ''validatesJSONPath'', ''validatesXPath'']
      \<and> map_of am ''target'' = Some (VString tv)
    \<longrightarrow> (\<exists>lg'. buildDatadogAssertion l (VMap am) =
         Inr ([emptyAssertion\<lparr>AssertionTarget :=
                 Some \<lparr>target_Operator = op,
                       target_Property = nonEmptyString am ''property'',
                       target_Target =
                         (if isTargetOfTypeInt t op then VInt (fst (Atoi tv))
                          else if t = ''packetLossPercentage''
                          then VFloat (fst (ParseFloat l tv))
                          else VString tv),
                       target_TimingsScope = nonEmptyString am ''timings_scope'',
                       target_Type = t\<rparr>\<rparr>], lg')))"
  by (intro conjI impI buildDatadogAssertions_concat;
      (elim conjE)?;
      (rule web_built sigv4_built ntlm_built oauthClient_built oauthROP_built digest_built
         buildDatadogBasicAuth_arm buildDatadogAssertion_shape_map javascript_built
         jsonSchema_built jsonPath_built xPath_built plain_built; assumption))

lemmas assertion_defs =
  buildDatadogAssertion_def jsonSchemaAssertion_def jsonPathAssertion_def xPathAssertion_def
  plainAssertion_def plainTarget_def jsonSchemaSubTarget_def jsonPathSubTarget_def
  xPathSubTarget_def numericTargetValue_def presentString_def nonEmptyString_def
  nonEmptyList_def mapIndex_def isTargetOfTypeInt_def
  SyntheticsAssertionTargetAsSyntheticsAssertion_def
  SyntheticsAssertionJSONSchemaTargetAsSyntheticsAssertion_def
  SyntheticsAssertionJSONPathTargetAsSyntheticsAssertion_def
  SyntheticsAssertionXPathTargetAsSyntheticsAssertion_def
  SyntheticsAssertionJavascriptAsSyntheticsAssertion_def
  NewSyntheticsAssertionTargetWithDefaults_def NewSyntheticsAssertionJavascriptWithDefaults_def
  NewSyntheticsAssertionJSONSchemaTarget_def NewSyntheticsAssertionJSONSchemaTargetTarget_def
  NewSyntheticsAssertionJSONPathTarget_def NewSyntheticsAssertionJSONPathTargetTarget_def
  NewSyntheticsAssertionXPathTarget_def NewSyntheticsAssertionXPathTargetTarget_def

lemma web_run:
  "buildDatadogBasicAuth exampleLib
     [(''type'', VString ''web''), (''username'', VString ''admin''),
      (''password'', VString ''hunter2'')]
   = Inr (emptyBasicAuth\<lparr>BasicAuthWeb :=
            Some \<lparr>web_Password = ''hunter2'', web_Type = Some ''web'',
                  web_Username = ''admin''\<rparr>\<rparr>, [])"
  by (simp add: buildDatadogBasicAuth_def mapIndex_def
      SyntheticsBasicAuthWebAsSyntheticsBasicAuth_def NewSyntheticsBasicAuthWebWithDefaults_def)

lemma javascript_run:
  "buildDatadogAssertion exampleLib (VMap [(''type'', VString ''javascript''), (''code'', VString
      ''return true;'')]) = Inr ([emptyAssertion\<lparr>AssertionJavascript := Some
      \<lparr>javascript_Code = ''return true;'', javascript_Type =
      ''javascript''\<rparr>\<rparr>], [])"
  by (simp add: assertion_defs)

lemma untyped_run:
  "buildDatadogAssertion exampleLib (VMap [(''operator'', VString ''is'')]) = Inr ([], [])"
  by (simp add: assertion_defs)

lemma jsonSchema_sub_run:
  "jsonSchemaSubTarget exampleLib (VMap [(''jsonschema'', VString ''{}''), (''metaschema'', VString
      ''draft-06'')]) = Inr (\<lparr>JsonSchema = Some ''{}'', MetaSchema = Some
      ''draft-06''\<rparr>, [])"
  by (simp add: assertion_defs exampleLib_def)

lemma jsonSchema_run:
  "buildDatadogAssertion exampleLib (VMap [(''type'', VString ''body''), (''operator'', VString
      ''validatesJSONSchema''), (''targetjsonschema'', VList [VMap [(''jsonschema'', VString
      ''{}''), (''metaschema'', VString ''draft-06'')]])]) = Inr
      ([emptyAssertion\<lparr>AssertionJSONSchemaTarget := Some \<lparr>jsonSchema_Operator =
      ''validatesJSONSchema'', jsonSchema_Target = Some \<lparr>JsonSchema = Some ''{}'',
      MetaSchema = Some ''draft-06''\<rparr>, jsonSchema_Type = ''body''\<rparr>\<rparr>], [])"
  by (simp add: assertion_defs exampleLib_def)

lemma jsonPath_sub_run:
  "jsonPathSubTarget exampleLib (VMap [(''jsonpath'', VString ''$.n''), (''operator'', VString
      ''lessThan''), (''targetvalue'', VString ''42'')]) = Inr
      \<lparr>jsonPathTarget_ElementsOperator = None, jsonPathTarget_JsonPath = Some ''$.n'',
      jsonPathTarget_Operator = Some ''lessThan'', jsonPathTarget_TargetValue = VFloat
      0x4045000000000000\<rparr>"
  by (simp add: assertion_defs exampleLib_def)

lemma jsonPath_run:
  "buildDatadogAssertion exampleLib (VMap [(''type'', VString ''body''), (''operator'', VString
      ''validatesJSONPath''), (''targetjsonpath'', VList [VMap [(''jsonpath'', VString ''$.n''),
      (''operator'', VString ''lessThan''), (''targetvalue'', VString ''42'')]])]) = Inr
      ([emptyAssertion\<lparr>AssertionJSONPathTarget := Some \<lparr>jsonPath_Operator =
      ''validatesJSONPath'', jsonPath_Property = None, jsonPath_Target = Some
      \<lparr>jsonPathTarget_ElementsOperator = None, jsonPathTarget_JsonPath = Some ''$.n'',
      jsonPathTarget_Operator = Some ''lessThan'', jsonPathTarget_TargetValue = VFloat
      0x4045000000000000\<rparr>, jsonPath_Type = ''body''\<rparr>\<rparr>], [])"
  by (simp add: assertion_defs exampleLib_def)

lemma xPath_sub_run:
  "xPathSubTarget exampleLib (VMap [(''xpath'', VString ''//n''), (''operator'', VString ''is''),
      (''targetvalue'', VString ''1'')]) = Inr \<lparr>xPathTarget_Operator = Some ''is'',
      xPathTarget_TargetValue = VString ''1'', xPathTarget_XPath = Some ''//n''\<rparr>"
  by (simp add: assertion_defs exampleLib_def)

lemma xPath_run:
  "buildDatadogAssertion exampleLib (VMap [(''type'', VString ''body''), (''operator'', VString
      ''validatesXPath''), (''targetxpath'', VList [VMap [(''xpath'', VString ''//n''),
      (''operator'', VString ''is''), (''targetvalue'', VString ''1'')]])]) = Inr
      ([emptyAssertion\<lparr>AssertionXPathTarget := Some \<lparr>xPath_Operator =
      ''validatesXPath'', xPath_Property = None, xPath_Target = Some \<lparr>xPathTarget_Operator =
      Some ''is'', xPathTarget_TargetValue = VString ''1'', xPathTarget_XPath = Some
      ''//n''\<rparr>, xPath_Type = ''body''\<rparr>\<rparr>], [])"
  by (simp add: assertion_defs exampleLib_def)

lemma bodyHash_run:
  "buildDatadogAssertion exampleLib (VMap [(''type'', VString ''bodyHash''), (''operator'', VString
      ''md5''), (''target'', VString ''d41d8cd98f00b204e9800998ecf8427e'')]) = Inr
      ([emptyAssertion\<lparr>AssertionTarget := Some \<lparr>target_Operator = ''md5'',
      target_Property = None, target_Target = VString ''d41d8cd98f00b204e9800998ecf8427e'',
      target_TimingsScope = None, target_Type = ''bodyHash''\<rparr>\<rparr>], [])"
  by (simp add: assertion_defs)

theorem variant_exclusivity_witness:
  "buildDatadogBasicAuth exampleLib [(''type'', VString ''web''), (''username'', VString
      ''admin''), (''password'', VString ''hunter2'')] = Inr (emptyBasicAuth\<lparr>BasicAuthWeb :=
      Some \<lparr>web_Password = ''hunter2'', web_Type = Some ''web'', web_Username =
      ''admin''\<rparr>\<rparr>, [])
   \<and> buildDatadogBasicAuth exampleLib [(''type'', VString ''sigv4''), (''access_key'', VString
       ''AKIA''), (''secret_key'', VString ''s3cr3t''), (''region'', VString ''eu-west-1''),
       (''service_name'', VString ''s3''), (''session_token'', VString ''tok'')] = Inr
       (emptyBasicAuth\<lparr>BasicAuthSigv4 := Some \<lparr>sigv4_AccessKey = ''AKIA'',
       sigv4_Region = Some ''eu-west-1'', sigv4_SecretKey = ''s3cr3t'', sigv4_ServiceName = Some
       ''s3'', sigv4_SessionToken = Some ''tok'', sigv4_Type = ''sigv4''\<rparr>\<rparr>, [])
   \<and> buildDatadogBasicAuth exampleLib [(''type'', VString ''ntlm''), (''username'', VString
       ''admin''), (''password'', VString ''hunter2''), (''domain'', VString ''corp''),
       (''workstation'', VString ''ws1'')] = Inr (emptyBasicAuth\<lparr>BasicAuthNTLM := Some
       \<lparr>ntlm_Domain = Some ''corp'', ntlm_Password = Some ''hunter2'', ntlm_Type = ''ntlm'',
       ntlm_Username = Some ''admin'', ntlm_Workstation = Some ''ws1''\<rparr>\<rparr>, [])
   \<and> buildDatadogBasicAuth exampleLib [(''type'', VString ''oauth-client''),
       (''token_api_authentication'', VString ''header''), (''access_token_url'', VString
       ''https://token''), (''client_id'', VString ''id''), (''client_secret'', VString
       ''s3cr3t''), (''audience'', VString ''''), (''scope'', VString ''read'')] = Inr
       (emptyBasicAuth\<lparr>BasicAuthOauthClient := Some \<lparr>oauthClient_AccessTokenUrl =
       ''https://token'', oauthClient_Audience = None, oauthClient_ClientId = ''id'',
       oauthClient_ClientSecret = ''s3cr3t'', oauthClient_Resource = None, oauthClient_Scope = Some
       ''read'', oauthClient_TokenApiAuthentication = ''header'', oauthClient_Type =
       ''oauth-client''\<rparr>\<rparr>, [])
   \<and> buildDatadogBasicAuth exampleLib [(''type'', VString ''oauth-rop''),
       (''token_api_authentication'', VString ''body''), (''access_token_url'', VString
       ''https://token''), (''password'', VString ''hunter2''), (''username'', VString ''admin''),
       (''client_id'', VString ''id''), (''client_secret'', VString ''s3cr3t''), (''resource'',
       VString ''api'')] = Inr (emptyBasicAuth\<lparr>BasicAuthOauthROP := Some
       \<lparr>oauthROP_AccessTokenUrl = ''https://token'', oauthROP_Audience = None,
       oauthROP_ClientId = Some ''id'', oauthROP_ClientSecret = Some ''s3cr3t'', oauthROP_Password
       = ''hunter2'', oauthROP_Resource = Some ''api'', oauthROP_Scope = None,
       oauthROP_TokenApiAuthentication = ''body'', oauthROP_Type = ''oauth-rop'', oauthROP_Username
       = ''admin''\<rparr>\<rparr>, [])
   \<and> buildDatadogBasicAuth exampleLib [(''type'', VString ''digest''), (''password'', VString
       ''hunter2''), (''username'', VString ''admin'')] = Inr
       (emptyBasicAuth\<lparr>BasicAuthDigest := Some \<lparr>digest_Password = ''hunter2'',
       digest_Type = ''digest'', digest_Username = ''admin''\<rparr>\<rparr>, [])
   \<and> buildDatadogAssertion exampleLib (VMap [(''type'', VString ''javascript''), (''code'',
       VString ''return true;'')]) = Inr ([emptyAssertion\<lparr>AssertionJavascript := Some
       \<lparr>javascript_Code = ''return true;'', javascript_Type =
       ''javascript''\<rparr>\<rparr>], [])
   \<and> (\<exists>lg'. buildDatadogAssertion exampleLib (VMap [(''type'', VString ''body''),
       (''operator'', VString ''validatesJSONSchema''), (''targetjsonschema'', VList [VMap
       [(''jsonschema'', VString ''{}''), (''metaschema'', VString ''draft-06'')]])]) = Inr
       ([emptyAssertion\<lparr>AssertionJSONSchemaTarget := Some \<lparr>jsonSchema_Operator =
       ''validatesJSONSchema'', jsonSchema_Target = Some \<lparr>JsonSchema = Some ''{}'',
       MetaSchema = Some ''draft-06''\<rparr>, jsonSchema_Type = ''body''\<rparr>\<rparr>], lg'))
   \<and> (\<exists>lg'. buildDatadogAssertion exampleLib (VMap [(''type'', VString ''body''),
       (''operator'', VString ''validatesJSONPath''), (''targetjsonpath'', VList [VMap
       [(''jsonpath'', VString ''$.n''), (''operator'', VString ''lessThan''), (''targetvalue'',
       VString ''42'')]])]) = Inr ([emptyAssertion\<lparr>AssertionJSONPathTarget := Some
       \<lparr>jsonPath_Operator = ''validatesJSONPath'', jsonPath_Property = None, jsonPath_Target
       = Some \<lparr>jsonPathTarget_ElementsOperator = None, jsonPathTarget_JsonPath = Some
       ''$.n'', jsonPathTarget_Operator = Some ''lessThan'', jsonPathTarget_TargetValue = VFloat
       0x4045000000000000\<rparr>, jsonPath_Type = ''body''\<rparr>\<rparr>], lg'))
   \<and> (\<exists>lg'. buildDatadogAssertion exampleLib (VMap [(''type'', VString ''body''),
       (''operator'', VString ''validatesXPath''), (''targetxpath'', VList [VMap [(''xpath'',
       VString ''//n''), (''operator'', VString ''is''), (''targetvalue'', VString ''1'')]])]) =
       Inr ([emptyAssertion\<lparr>AssertionXPathTarget := Some \<lparr>xPath_Operator =
       ''validatesXPath'', xPath_Property = None, xPath_Target = Some \<lparr>xPathTarget_Operator
       = Some ''is'', xPathTarget_TargetValue = VString ''1'', xPathTarget_XPath = Some
       ''//n''\<rparr>, xPath_Type = ''body''\<rparr>\<rparr>], lg'))
   \<and> (\<exists>lg'. buildDatadogAssertion exampleLib (VMap [(''type'', VString ''bodyHash''),
       (''operator'', VString ''md5''), (''target'', VString
       ''d41d8cd98f00b204e9800998ecf8427e'')]) = Inr ([emptyAssertion\<lparr>AssertionTarget :=
       Some \<lparr>target_Operator = ''md5'', target_Property = None, target_Target = VString
       ''d41d8cd98f00b204e9800998ecf8427e'', target_TimingsScope = None, target_Type =
       ''bodyHash''\<rparr>\<rparr>], lg'))
   \<and> buildDatadogAssertions exampleLib
        [VMap [(''type'', VString ''javascript''), (''code'', VString ''return true;'')], VMap
            [(''operator'', VString ''is'')], VMap [(''type'', VString ''body''), (''operator'',
            VString ''validatesJSONSchema''), (''targetjsonschema'', VList [VMap [(''jsonschema'',
            VString ''{}''), (''metaschema'', VString ''draft-06'')]])], VMap [(''type'', VString
            ''body''), (''operator'', VString ''validatesJSONPath''), (''targetjsonpath'', VList
            [VMap [(''jsonpath'', VString ''$.n''), (''operator'', VString ''lessThan''),
            (''targetvalue'', VString ''42'')]])], VMap [(''type'', VString ''body''),
            (''operator'', VString ''validatesXPath''), (''targetxpath'', VList [VMap [(''xpath'',
            VString ''//n''), (''operator'', VString ''is''), (''targetvalue'', VString ''1'')]])],
            VMap [(''type'', VString ''bodyHash''), (''operator'', VString ''md5''), (''target'',
            VString ''d41d8cd98f00b204e9800998ecf8427e'')]]
       = Inr ([emptyAssertion\<lparr>AssertionJavascript := Some \<lparr>javascript_Code =
           ''return true;'', javascript_Type = ''javascript''\<rparr>\<rparr>,
           emptyAssertion\<lparr>AssertionJSONSchemaTarget := Some \<lparr>jsonSchema_Operator =
           ''validatesJSONSchema'', jsonSchema_Target = Some \<lparr>JsonSchema = Some ''{}'',
           MetaSchema = Some ''draft-06''\<rparr>, jsonSchema_Type = ''body''\<rparr>\<rparr>,
           emptyAssertion\<lparr>AssertionJSONPathTarget := Some \<lparr>jsonPath_Operator =
           ''validatesJSONPath'', jsonPath_Property = None, jsonPath_Target = Some
           \<lparr>jsonPathTarget_ElementsOperator = None, jsonPathTarget_JsonPath = Some ''$.n'',
           jsonPathTarget_Operator = Some ''lessThan'', jsonPathTarget_TargetValue = VFloat
           0x4045000000000000\<rparr>, jsonPath_Type = ''body''\<rparr>\<rparr>,
           emptyAssertion\<lparr>AssertionXPathTarget := Some \<lparr>xPath_Operator =
           ''validatesXPath'', xPath_Property = None, xPath_Target = Some
           \<lparr>xPathTarget_Operator = Some ''is'', xPathTarget_TargetValue = VString ''1'',
           xPathTarget_XPath = Some ''//n''\<rparr>, xPath_Type = ''body''\<rparr>\<rparr>,
           emptyAssertion\<lparr>AssertionTarget := Some \<lparr>target_Operator = ''md5'',
           target_Property = None, target_Target = VString ''d41d8cd98f00b204e9800998ecf8427e'',
           target_TimingsScope = None, target_Type = ''bodyHash''\<rparr>\<rparr>], [])
   \<and> (\<exists>v. [emptyAssertion\<lparr>AssertionTarget := Some \<lparr>target_Operator =
       ''md5'', target_Property = None, target_Target = VString
       ''d41d8cd98f00b204e9800998ecf8427e'', target_TimingsScope = None, target_Type =
       ''bodyHash''\<rparr>\<rparr>] = [emptyAssertion\<lparr>AssertionTarget := Some v\<rparr>])
   \<and> AssertionBodyHashTarget (emptyAssertion\<lparr>AssertionTarget := Some
       \<lparr>target_Operator = ''md5'', target_Property = None, target_Target = VString
       ''d41d8cd98f00b204e9800998ecf8427e'', target_TimingsScope = None, target_Type =
       ''bodyHash''\<rparr>\<rparr>) = None"
proof -
  have web: "buildDatadogBasicAuth exampleLib [(''type'', VString ''web''), (''username'', VString
      ''admin''), (''password'', VString ''hunter2'')] = Inr (emptyBasicAuth\<lparr>BasicAuthWeb :=
      Some \<lparr>web_Password = ''hunter2'', web_Type = Some ''web'', web_Username =
      ''admin''\<rparr>\<rparr>, [])"
    using variant_exclusivity
      [where l = exampleLib and u = "''admin''" and p = "''hunter2''" and m = "[(''type'', VString
          ''web''), (''username'', VString ''admin''), (''password'', VString ''hunter2'')]"]
    by (simp add: mapIndex_def)
  have sigv4: "buildDatadogBasicAuth exampleLib [(''type'', VString ''sigv4''), (''access_key'',
      VString ''AKIA''), (''secret_key'', VString ''s3cr3t''), (''region'', VString ''eu-west-1''),
      (''service_name'', VString ''s3''), (''session_token'', VString ''tok'')] = Inr
      (emptyBasicAuth\<lparr>BasicAuthSigv4 := Some \<lparr>sigv4_AccessKey = ''AKIA'',
      sigv4_Region = Some ''eu-west-1'', sigv4_SecretKey = ''s3cr3t'', sigv4_ServiceName = Some
      ''s3'', sigv4_SessionToken = Some ''tok'', sigv4_Type = ''sigv4''\<rparr>\<rparr>, [])"
    using variant_exclusivity
      [where l = exampleLib and ak = "''AKIA''" and sk = "''s3cr3t''" and r = "''eu-west-1''"
         and sn = "''s3''" and st = "''tok''" and m = "[(''type'', VString ''sigv4''),
             (''access_key'', VString ''AKIA''), (''secret_key'', VString ''s3cr3t''), (''region'',
             VString ''eu-west-1''), (''service_name'', VString ''s3''), (''session_token'',
             VString ''tok'')]"]
    by (simp add: mapIndex_def)
  have ntlm: "buildDatadogBasicAuth exampleLib [(''type'', VString ''ntlm''), (''username'',
      VString ''admin''), (''password'', VString ''hunter2''), (''domain'', VString ''corp''),
      (''workstation'', VString ''ws1'')] = Inr (emptyBasicAuth\<lparr>BasicAuthNTLM := Some
      \<lparr>ntlm_Domain = Some ''corp'', ntlm_Password = Some ''hunter2'', ntlm_Type = ''ntlm'',
      ntlm_Username = Some ''admin'', ntlm_Workstation = Some ''ws1''\<rparr>\<rparr>, [])"
    using variant_exclusivity
      [where l = exampleLib and u = "''admin''" and p = "''hunter2''" and d = "''corp''"
         and w = "''ws1''" and m = "[(''type'', VString ''ntlm''), (''username'', VString
             ''admin''), (''password'', VString ''hunter2''), (''domain'', VString ''corp''),
             (''workstation'', VString ''ws1'')]"]
    by (simp add: mapIndex_def)
  have oauthClient: "buildDatadogBasicAuth exampleLib [(''type'', VString ''oauth-client''),
      (''token_api_authentication'', VString ''header''), (''access_token_url'', VString
      ''https://token''), (''client_id'', VString ''id''), (''client_secret'', VString ''s3cr3t''),
      (''audience'', VString ''''), (''scope'', VString ''read'')] = Inr
      (emptyBasicAuth\<lparr>BasicAuthOauthClient := Some \<lparr>oauthClient_AccessTokenUrl =
      ''https://token'', oauthClient_Audience = None, oauthClient_ClientId = ''id'',
      oauthClient_ClientSecret = ''s3cr3t'', oauthClient_Resource = None, oauthClient_Scope = Some
      ''read'', oauthClient_TokenApiAuthentication = ''header'', oauthClient_Type =
      ''oauth-client''\<rparr>\<rparr>, [])"
    using variant_exclusivity
      [where l = exampleLib and ta = "''header''" and url = "''https://token''"
         and cid = "''id''" and cs = "''s3cr3t''" and m = "[(''type'', VString ''oauth-client''),
             (''token_api_authentication'', VString ''header''), (''access_token_url'', VString
             ''https://token''), (''client_id'', VString ''id''), (''client_secret'', VString
             ''s3cr3t''), (''audience'', VString ''''), (''scope'', VString ''read'')]"]
    by (simp add: mapIndex_def nonEmptyString_def tokenApiAuthenticationValue_def
        exampleLib_def)
  have oauthROP: "buildDatadogBasicAuth exampleLib [(''type'', VString ''oauth-rop''),
      (''token_api_authentication'', VString ''body''), (''access_token_url'', VString
      ''https://token''), (''password'', VString ''hunter2''), (''username'', VString ''admin''),
      (''client_id'', VString ''id''), (''client_secret'', VString ''s3cr3t''), (''resource'',
      VString ''api'')] = Inr (emptyBasicAuth\<lparr>BasicAuthOauthROP := Some
      \<lparr>oauthROP_AccessTokenUrl = ''https://token'', oauthROP_Audience = None,
      oauthROP_ClientId = Some ''id'', oauthROP_ClientSecret = Some ''s3cr3t'', oauthROP_Password =
      ''hunter2'', oauthROP_Resource = Some ''api'', oauthROP_Scope = None,
      oauthROP_TokenApiAuthentication = ''body'', oauthROP_Type = ''oauth-rop'', oauthROP_Username
      = ''admin''\<rparr>\<rparr>, [])"
    using variant_exclusivity
      [where l = exampleLib and ta = "''body''" and url = "''https://token''"
         and cid = "''id''" and cs = "''s3cr3t''" and u = "''admin''" and p = "''hunter2''"
         and m = "[(''type'', VString ''oauth-rop''), (''token_api_authentication'', VString
             ''body''), (''access_token_url'', VString ''https://token''), (''password'', VString
             ''hunter2''), (''username'', VString ''admin''), (''client_id'', VString ''id''),
             (''client_secret'', VString ''s3cr3t''), (''resource'', VString ''api'')]"]
    by (simp add: mapIndex_def nonEmptyString_def tokenApiAuthenticationValue_def
        exampleLib_def)
  have digest: "buildDatadogBasicAuth exampleLib [(''type'', VString ''digest''), (''password'',
      VString ''hunter2''), (''username'', VString ''admin'')] = Inr
      (emptyBasicAuth\<lparr>BasicAuthDigest := Some \<lparr>digest_Password = ''hunter2'',
      digest_Type = ''digest'', digest_Username = ''admin''\<rparr>\<rparr>, [])"
    using variant_exclusivity
      [where l = exampleLib and u = "''admin''" and p = "''hunter2''" and m = "[(''type'', VString
          ''digest''), (''password'', VString ''hunter2''), (''username'', VString ''admin'')]"]
    by (simp add: mapIndex_def)
  have javascript: "buildDatadogAssertion exampleLib (VMap [(''type'', VString ''javascript''),
      (''code'', VString ''return true;'')]) = Inr ([emptyAssertion\<lparr>AssertionJavascript :=
      Some \<lparr>javascript_Code = ''return true;'', javascript_Type =
      ''javascript''\<rparr>\<rparr>], [])"
    using variant_exclusivity
      [where l = exampleLib and c = "''return true;''" and am = "[(''type'', VString
          ''javascript''), (''code'', VString ''return true;'')]"]
    by simp
  have jsonSchema:
    "\<exists>lg'. buildDatadogAssertion exampleLib (VMap [(''type'', VString ''body''),
        (''operator'', VString ''validatesJSONSchema''), (''targetjsonschema'', VList [VMap
        [(''jsonschema'', VString ''{}''), (''metaschema'', VString ''draft-06'')]])]) = Inr
        ([emptyAssertion\<lparr>AssertionJSONSchemaTarget := Some \<lparr>jsonSchema_Operator =
        ''validatesJSONSchema'', jsonSchema_Target = Some \<lparr>JsonSchema = Some ''{}'',
        MetaSchema = Some ''draft-06''\<rparr>, jsonSchema_Type = ''body''\<rparr>\<rparr>], lg')"
    using variant_exclusivity
      [where l = exampleLib and t = "''body''" and am = "[(''type'', VString ''body''),
          (''operator'', VString ''validatesJSONSchema''), (''targetjsonschema'', VList [VMap
          [(''jsonschema'', VString ''{}''), (''metaschema'', VString ''draft-06'')]])]"
         and first = "VMap [(''jsonschema'', VString ''{}''), (''metaschema'', VString
             ''draft-06'')]" and rest = "[]"
         and schemaTarget = "\<lparr>JsonSchema = Some ''{}'', MetaSchema = Some
             ''draft-06''\<rparr>" and lgt = "[]"]
      jsonSchema_sub_run
    by (simp add: mapIndex_def)
  have jsonPath:
    "\<exists>lg'. buildDatadogAssertion exampleLib (VMap [(''type'', VString ''body''),
        (''operator'', VString ''validatesJSONPath''), (''targetjsonpath'', VList [VMap
        [(''jsonpath'', VString ''$.n''), (''operator'', VString ''lessThan''), (''targetvalue'',
        VString ''42'')]])]) = Inr ([emptyAssertion\<lparr>AssertionJSONPathTarget := Some
        \<lparr>jsonPath_Operator = ''validatesJSONPath'', jsonPath_Property = None,
        jsonPath_Target = Some \<lparr>jsonPathTarget_ElementsOperator = None,
        jsonPathTarget_JsonPath = Some ''$.n'', jsonPathTarget_Operator = Some ''lessThan'',
        jsonPathTarget_TargetValue = VFloat 0x4045000000000000\<rparr>, jsonPath_Type =
        ''body''\<rparr>\<rparr>], lg')"
    using variant_exclusivity
      [where l = exampleLib and t = "''body''" and am = "[(''type'', VString ''body''),
          (''operator'', VString ''validatesJSONPath''), (''targetjsonpath'', VList [VMap
          [(''jsonpath'', VString ''$.n''), (''operator'', VString ''lessThan''), (''targetvalue'',
          VString ''42'')]])]"
         and first = "VMap [(''jsonpath'', VString ''$.n''), (''operator'', VString ''lessThan''),
             (''targetvalue'', VString ''42'')]" and rest = "[]"
         and pathTarget = "\<lparr>jsonPathTarget_ElementsOperator = None, jsonPathTarget_JsonPath
             = Some ''$.n'', jsonPathTarget_Operator = Some ''lessThan'',
             jsonPathTarget_TargetValue = VFloat 0x4045000000000000\<rparr>"]
      jsonPath_sub_run
    by (simp add: mapIndex_def nonEmptyString_def)
  have xPath:
    "\<exists>lg'. buildDatadogAssertion exampleLib (VMap [(''type'', VString ''body''),
        (''operator'', VString ''validatesXPath''), (''targetxpath'', VList [VMap [(''xpath'',
        VString ''//n''), (''operator'', VString ''is''), (''targetvalue'', VString ''1'')]])]) =
        Inr ([emptyAssertion\<lparr>AssertionXPathTarget := Some \<lparr>xPath_Operator =
        ''validatesXPath'', xPath_Property = None, xPath_Target = Some \<lparr>xPathTarget_Operator
        = Some ''is'', xPathTarget_TargetValue = VString ''1'', xPathTarget_XPath = Some
        ''//n''\<rparr>, xPath_Type = ''body''\<rparr>\<rparr>], lg')"
    using variant_exclusivity
      [where l = exampleLib and t = "''body''" and am = "[(''type'', VString ''body''),
          (''operator'', VString ''validatesXPath''), (''targetxpath'', VList [VMap [(''xpath'',
          VString ''//n''), (''operator'', VString ''is''), (''targetvalue'', VString ''1'')]])]"
         and first = "VMap [(''xpath'', VString ''//n''), (''operator'', VString ''is''),
             (''targetvalue'', VString ''1'')]" and rest = "[]"
         and xpathTarget = "\<lparr>xPathTarget_Operator = Some ''is'', xPathTarget_TargetValue =
             VString ''1'', xPathTarget_XPath = Some ''//n''\<rparr>"]
      xPath_sub_run
    by (simp add: mapIndex_def nonEmptyString_def)
  have bodyHash:
    "\<exists>lg'. buildDatadogAssertion exampleLib (VMap [(''type'', VString ''bodyHash''),
        (''operator'', VString ''md5''), (''target'', VString
        ''d41d8cd98f00b204e9800998ecf8427e'')]) = Inr ([emptyAssertion\<lparr>AssertionTarget :=
        Some \<lparr>target_Operator = ''md5'', target_Property = None, target_Target = VString
        ''d41d8cd98f00b204e9800998ecf8427e'', target_TimingsScope = None, target_Type =
        ''bodyHash''\<rparr>\<rparr>], lg')"
    using variant_exclusivity
      [where l = exampleLib and t = "''bodyHash''" and op = "''md5''"
         and tv = "''d41d8cd98f00b204e9800998ecf8427e''" and am = "[(''type'', VString
             ''bodyHash''), (''operator'', VString ''md5''), (''target'', VString
             ''d41d8cd98f00b204e9800998ecf8427e'')]"]
    by (simp add: mapIndex_def nonEmptyString_def isTargetOfTypeInt_def)
  let ?parts = "[([emptyAssertion\<lparr>AssertionJavascript := Some \<lparr>javascript_Code =
      ''return true;'', javascript_Type = ''javascript''\<rparr>\<rparr>], []), ([], []),
      ([emptyAssertion\<lparr>AssertionJSONSchemaTarget := Some \<lparr>jsonSchema_Operator =
      ''validatesJSONSchema'', jsonSchema_Target = Some \<lparr>JsonSchema = Some ''{}'',
      MetaSchema = Some ''draft-06''\<rparr>, jsonSchema_Type = ''body''\<rparr>\<rparr>], []),
      ([emptyAssertion\<lparr>AssertionJSONPathTarget := Some \<lparr>jsonPath_Operator =
      ''validatesJSONPath'', jsonPath_Property = None, jsonPath_Target = Some
      \<lparr>jsonPathTarget_ElementsOperator = None, jsonPathTarget_JsonPath = Some ''$.n'',
      jsonPathTarget_Operator = Some ''lessThan'', jsonPathTarget_TargetValue = VFloat
      0x4045000000000000\<rparr>, jsonPath_Type = ''body''\<rparr>\<rparr>], []),
      ([emptyAssertion\<lparr>AssertionXPathTarget := Some \<lparr>xPath_Operator =
      ''validatesXPath'', xPath_Property = None, xPath_Target = Some \<lparr>xPathTarget_Operator =
      Some ''is'', xPathTarget_TargetValue = VString ''1'', xPathTarget_XPath = Some
      ''//n''\<rparr>, xPath_Type = ''body''\<rparr>\<rparr>], []),
      ([emptyAssertion\<lparr>AssertionTarget := Some \<lparr>target_Operator = ''md5'',
      target_Property = None, target_Target = VString ''d41d8cd98f00b204e9800998ecf8427e'',
      target_TimingsScope = None, target_Type = ''bodyHash''\<rparr>\<rparr>], [])]
                  :: (SyntheticsAssertion list \<times> string list) list"
  have list: "buildDatadogAssertions exampleLib
        [VMap [(''type'', VString ''javascript''), (''code'', VString ''return true;'')], VMap
            [(''operator'', VString ''is'')], VMap [(''type'', VString ''body''), (''operator'',
            VString ''validatesJSONSchema''), (''targetjsonschema'', VList [VMap [(''jsonschema'',
            VString ''{}''), (''metaschema'', VString ''draft-06'')]])], VMap [(''type'', VString
            ''body''), (''operator'', VString ''validatesJSONPath''), (''targetjsonpath'', VList
            [VMap [(''jsonpath'', VString ''$.n''), (''operator'', VString ''lessThan''),
            (''targetvalue'', VString ''42'')]])], VMap [(''type'', VString ''body''),
            (''operator'', VString ''validatesXPath''), (''targetxpath'', VList [VMap [(''xpath'',
            VString ''//n''), (''operator'', VString ''is''), (''targetvalue'', VString ''1'')]])],
            VMap [(''type'', VString ''bodyHash''), (''operator'', VString ''md5''), (''target'',
            VString ''d41d8cd98f00b204e9800998ecf8427e'')]]
       = Inr (concat (map fst ?parts), concat (map snd ?parts))"
    by (rule variant_exclusivity
          [THEN conjunct2, THEN conjunct2, THEN conjunct2, THEN conjunct2, THEN conjunct2,
           THEN conjunct2, THEN conjunct2, THEN conjunct1, THEN iffD2])
      (rule exI [of _ ?parts],
        simp add: javascript_run untyped_run jsonSchema_run jsonPath_run xPath_run
          bodyHash_run)
  have shape: "(\<exists>v. [emptyAssertion\<lparr>AssertionTarget := Some \<lparr>target_Operator
      = ''md5'', target_Property = None, target_Target = VString
      ''d41d8cd98f00b204e9800998ecf8427e'', target_TimingsScope = None, target_Type =
      ''bodyHash''\<rparr>\<rparr>] = [emptyAssertion\<lparr>AssertionTarget := Some v\<rparr>])
      \<and> AssertionBodyHashTarget (emptyAssertion\<lparr>AssertionTarget := Some
          \<lparr>target_Operator = ''md5'', target_Property = None, target_Target = VString
          ''d41d8cd98f00b204e9800998ecf8427e'', target_TimingsScope = None, target_Type =
          ''bodyHash''\<rparr>\<rparr>) = None"
    using variant_exclusivity
      [where l = exampleLib and x = "VMap [(''type'', VString ''bodyHash''), (''operator'', VString
          ''md5''), (''target'', VString ''d41d8cd98f00b204e9800998ecf8427e'')]" and as =
          "[emptyAssertion\<lparr>AssertionTarget := Some \<lparr>target_Operator = ''md5'',
          target_Property = None, target_Target = VString ''d41d8cd98f00b204e9800998ecf8427e'',
          target_TimingsScope = None, target_Type = ''bodyHash''\<rparr>\<rparr>]" and lga = "[]"]
      bodyHash_run
    by simp
  have list': "buildDatadogAssertions exampleLib
        [VMap [(''type'', VString ''javascript''), (''code'', VString ''return true;'')], VMap
            [(''operator'', VString ''is'')], VMap [(''type'', VString ''body''), (''operator'',
            VString ''validatesJSONSchema''), (''targetjsonschema'', VList [VMap [(''jsonschema'',
            VString ''{}''), (''metaschema'', VString ''draft-06'')]])], VMap [(''type'', VString
            ''body''), (''operator'', VString ''validatesJSONPath''), (''targetjsonpath'', VList
            [VMap [(''jsonpath'', VString ''$.n''), (''operator'', VString ''lessThan''),
            (''targetvalue'', VString ''42'')]])], VMap [(''type'', VString ''body''),
            (''operator'', VString ''validatesXPath''), (''targetxpath'', VList [VMap [(''xpath'',
            VString ''//n''), (''operator'', VString ''is''), (''targetvalue'', VString ''1'')]])],
            VMap [(''type'', VString ''bodyHash''), (''operator'', VString ''md5''), (''target'',
            VString ''d41d8cd98f00b204e9800998ecf8427e'')]]
       = Inr ([emptyAssertion\<lparr>AssertionJavascript := Some \<lparr>javascript_Code =
           ''return true;'', javascript_Type = ''javascript''\<rparr>\<rparr>,
           emptyAssertion\<lparr>AssertionJSONSchemaTarget := Some \<lparr>jsonSchema_Operator =
           ''validatesJSONSchema'', jsonSchema_Target = Some \<lparr>JsonSchema = Some ''{}'',
           MetaSchema = Some ''draft-06''\<rparr>, jsonSchema_Type = ''body''\<rparr>\<rparr>,
           emptyAssertion\<lparr>AssertionJSONPathTarget := Some \<lparr>jsonPath_Operator =
           ''validatesJSONPath'', jsonPath_Property = None, jsonPath_Target = Some
           \<lparr>jsonPathTarget_ElementsOperator = None, jsonPathTarget_JsonPath = Some ''$.n'',
           jsonPathTarget_Operator = Some ''lessThan'', jsonPathTarget_TargetValue = VFloat
           0x4045000000000000\<rparr>, jsonPath_Type = ''body''\<rparr>\<rparr>,
           emptyAssertion\<lparr>AssertionXPathTarget := Some \<lparr>xPath_Operator =
           ''validatesXPath'', xPath_Property = None, xPath_Target = Some
           \<lparr>xPathTarget_Operator = Some ''is'', xPathTarget_TargetValue = VString ''1'',
           xPathTarget_XPath = Some ''//n''\<rparr>, xPath_Type = ''body''\<rparr>\<rparr>,
           emptyAssertion\<lparr>AssertionTarget := Some \<lparr>target_Operator = ''md5'',
           target_Property = None, target_Target = VString ''d41d8cd98f00b204e9800998ecf8427e'',
           target_TimingsScope = None, target_Type = ''bodyHash''\<rparr>\<rparr>], [])"
    using list by (simp del: buildDatadogAssertions.simps)
  show ?thesis
    by (intro conjI;
        (rule web sigv4 ntlm oauthClient oauthROP digest javascript jsonSchema jsonPath xPath
           bodyHash list' shape [THEN conjunct1] shape [THEN conjunct2]))
qed

theorem body_hash_builds_plain_arm:
  "\<exists>a. buildDatadogAssertions exampleLib [VMap [(''type'', VString ''bodyHash''),
      (''operator'', VString ''md5''), (''target'', VString ''d41d8cd98f00b204e9800998ecf8427e'')]]
      = Inr ([a], [])
        \<and> AssertionBodyHashTarget a = None
        \<and> AssertionTarget a =
            Some \<lparr>target_Operator = ''md5'', target_Property = None,
                  target_Target = VString ''d41d8cd98f00b204e9800998ecf8427e'',
                  target_TimingsScope = None, target_Type = ''bodyHash''\<rparr>"
  by (simp add: bodyHash_run emptyAssertion_def)

subsection \<open>Numeric targets\<close>

lemma numericTargetValue_string:
  "numericTargetValue l old (VString s) =
     Inr (if templateMatch s then VString s
          else case ParseFloat l s of (f, True) \<Rightarrow> VFloat f | (_, False) \<Rightarrow> old)"
  by (simp add: numericTargetValue_def split: prod.split bool.split)

lemma templateMatch_example: "templateMatch ''{{ LIMIT }}''"
  by simp

text \<open>
  C2. Numeric passthrough exception. The branches of the JSON path and of the XPath target
  values do what the sentence says (\<open>numericTargetValue_string\<close>). The plain target
  branch does not: under a pair of \<^verbatim>\<open>isTargetOfTypeInt\<close> the error of
  \<^verbatim>\<open>strconv.Atoi\<close> is dropped, so that a template and any other text that is not a
  number both set the integer 0 as the target; only a numeral is set as its number.
\<close>

theorem plain_target_sets_zero:
  "buildDatadogAssertions l
     [VMap [(''type'', VString ''responseTime''), (''operator'', VString ''lessThan''),
            (''target'', VString ''{{ LIMIT }}'')]]
   = Inr ([emptyAssertion\<lparr>AssertionTarget := Some
             \<lparr>target_Operator = ''lessThan'', target_Property = None, target_Target = VInt 0,
              target_TimingsScope = None, target_Type = ''responseTime''\<rparr>\<rparr>], [])
   \<and> buildDatadogAssertions l
     [VMap [(''type'', VString ''statusCode''), (''operator'', VString ''is''),
            (''target'', VString ''OK'')]]
   = Inr ([emptyAssertion\<lparr>AssertionTarget := Some
             \<lparr>target_Operator = ''is'', target_Property = None, target_Target = VInt 0,
              target_TimingsScope = None, target_Type = ''statusCode''\<rparr>\<rparr>], [])
   \<and> buildDatadogAssertions l
     [VMap [(''type'', VString ''statusCode''), (''operator'', VString ''is''),
            (''target'', VString ''42'')]]
   = Inr ([emptyAssertion\<lparr>AssertionTarget := Some
             \<lparr>target_Operator = ''is'', target_Property = None, target_Target = VInt 42,
              target_TimingsScope = None, target_Type = ''statusCode''\<rparr>\<rparr>], [])"
  by (simp add: assertion_defs Atoi_def isDigit_def decimal_def digitVal_def)

subsection \<open>Credential types that build nothing\<close>

text \<open>
  C8. Unknown discriminator tolerance, as the code has it: a basic-auth type that is a
  string other than the six schemes gives the empty credential union and exactly one
  warning, with no panic; a step type outside the table gives the empty key list, and
  nothing is logged.
\<close>

theorem unknown_discriminator:
  "(mapIndex m ''type'' = VString t
      \<and> t \<notin> set [''web'', ''sigv4'', ''ntlm'', ''oauth-client'', ''oauth-rop'', ''digest'']
      \<longrightarrow> buildDatadogBasicAuth l m
            = Inr (emptyBasicAuth, [''[WARN] unrecognized basic auth type '' @ t]))
   \<and> (stepType \<notin> set [''assertCurrentUrl'', ''assertElementAttribute'',
          ''assertElementContent'', ''assertElementPresent'', ''assertEmail'',
          ''assertFileDownload'', ''assertFromJavascript'', ''assertPageContains'',
          ''assertPageLacks'', ''click'', ''extractFromJavascript'', ''extractVariable'',
          ''goToEmailLink'', ''goToUrl'', ''hover'', ''playSubTest'', ''pressKey'', ''refresh'',
          ''runApiTest'', ''scroll'', ''selectOption'', ''typeText'', ''uploadFiles'', ''wait'']
      \<longrightarrow> getParamsKeysForStepType stepType = ([], []))"
  by (simp add: buildDatadogBasicAuth_def getParamsKeysForStepType_def)

theorem unknown_discriminator_witness:
  "buildDatadogBasicAuth exampleLib
     [(''type'', VString ''kerberos''), (''username'', VString ''admin'')]
     = Inr (emptyBasicAuth, [''[WARN] unrecognized basic auth type kerberos''])
   \<and> getParamsKeysForStepType ''tap'' = ([], [])"
  using unknown_discriminator
    [where m = "[(''type'', VString ''kerberos''), (''username'', VString ''admin'')]"
       and t = "''kerberos''" and stepType = "''tap''" and l = exampleLib]
  by (simp add: mapIndex_def)

theorem unknown_step_type_logs_nothing:
  "getParamsKeysForStepType ''tap'' = ([], [])
   \<and> length (snd (getParamsKeysForStepType ''tap'')) \<noteq> 1"
  by (simp add: getParamsKeysForStepType_def)

text \<open>
  C10. The \<^verbatim>\<open>web\<close> scheme with an empty user name builds no web credential: the call
  returns the empty union and the warning of an unrecognized type, whatever the password
  is; and a web credential is built only when the user name is not the empty string.
\<close>

theorem web_empty_username:
  "(mapIndex m ''type'' = VString ''web'' \<and> mapIndex m ''username'' = VString ''''
      \<longrightarrow> buildDatadogBasicAuth l m
            = Inr (emptyBasicAuth, [''[WARN] unrecognized basic auth type web'']))
   \<and> (buildDatadogBasicAuth l m' = Inr (auth, lg) \<and> BasicAuthWeb auth \<noteq> None
      \<longrightarrow> mapIndex m' ''type'' = VString ''web'' \<and> mapIndex m' ''username'' \<noteq> VString '''')"
  by (auto simp: buildDatadogBasicAuth_def bind_eq_Inr emptyBasicAuth_def basicAuth_wrappers
      split: if_splits)

theorem web_empty_username_witness:
  "buildDatadogBasicAuth exampleLib
     [(''type'', VString ''web''), (''username'', VString ''''),
      (''password'', VString ''hunter2'')]
     = Inr (emptyBasicAuth, [''[WARN] unrecognized basic auth type web''])
   \<and> mapIndex [(''type'', VString ''web''), (''username'', VString ''admin''),
                (''password'', VString ''hunter2'')] ''username'' \<noteq> VString ''''"
  using web_empty_username
    [where m = "[(''type'', VString ''web''), (''username'', VString ''''),
                 (''password'', VString ''hunter2'')]"
       and m' = "[(''type'', VString ''web''), (''username'', VString ''admin''),
                  (''password'', VString ''hunter2'')]"
       and l = exampleLib and lg = "[]"
       and auth = "emptyBasicAuth\<lparr>BasicAuthWeb :=
            Some \<lparr>web_Password = ''hunter2'', web_Type = Some ''web'',
                  web_Username = ''admin''\<rparr>\<rparr>"]
    web_run
  by (simp add: mapIndex_def)

subsection \<open>Flattening against the previous configuration\<close>

lemma buildTerraformBodyFilesFrom_short:
  "i \<le> length old \<Longrightarrow> length old < i + length files
   \<Longrightarrow> buildTerraformBodyFilesFrom i files old = Inl IndexOutOfRange"
proof (induction files arbitrary: i)
  case Nil
  then show ?case by simp
next
  case (Cons f files)
  show ?case
  proof (cases "i < length old")
    case True
    with Cons.prems have "Suc i \<le> length old" and "length old < Suc i + length files"
      by simp_all
    then have "buildTerraformBodyFilesFrom (Suc i) files old = Inl IndexOutOfRange"
      by (rule Cons.IH)
    with True show ?thesis by (simp add: sliceIndex_def)
  next
    case False
    then show ?thesis by (simp add: sliceIndex_def)
  qed
qed

lemma localConfigVariable_out_of_range:
  assumes "length old \<le> k" and "configVariable_Type cv \<noteq> ''global''"
    and "configVariable_Secure cv = Some True"
  shows "localConfigVariable cv old k = Inl IndexOutOfRange"
  using assms by (simp add: localConfigVariable_def mapIndex_def sliceIndex_def)

lemma buildTerraformConfigVariablesFrom_short:
  "i < length cvs \<Longrightarrow> length old \<le> k + i \<Longrightarrow> configVariable_Type (cvs ! i) \<noteq> ''global''
   \<Longrightarrow> configVariable_Secure (cvs ! i) = Some True
   \<Longrightarrow> \<exists>e. buildTerraformConfigVariablesFrom k cvs old = Inl e"
proof (induction cvs arbitrary: i k)
  case Nil
  then show ?case by simp
next
  case (Cons cv cvs)
  show ?case
  proof (cases i)
    case 0
    with Cons.prems show ?thesis
      by (simp add: localConfigVariable_out_of_range)
  next
    case (Suc j)
    with Cons.prems have "\<exists>e. buildTerraformConfigVariablesFrom (Suc k) cvs old = Inl e"
      by (intro Cons.IH [of j]) simp_all
    then show ?thesis
      by (cases "localConfigVariable cv old k") auto
  qed
qed

text \<open>
  C9. No-abort guarantee. It fails where the model's list is longer than the stored one:
  \<^verbatim>\<open>buildTerraformBodyFiles\<close> indexes \<^verbatim>\<open>oldLocalBodyFiles[i]\<close> for every file of
  the response, and \<^verbatim>\<open>buildTerraformConfigVariables\<close> indexes
  \<^verbatim>\<open>oldConfigVariables[i]\<close> for every secure variable that is not global, without a
  test of the length; the call panics with an index out of range.
\<close>

theorem flatten_longer_model_panics:
  "(length oldLocalBodyFiles < length actualBodyFiles
      \<longrightarrow> buildTerraformBodyFiles actualBodyFiles oldLocalBodyFiles = Inl IndexOutOfRange)
   \<and> (i < length configVariables \<and> length oldConfigVariables \<le> i
       \<and> configVariable_Type (configVariables ! i) \<noteq> ''global''
       \<and> configVariable_Secure (configVariables ! i) = Some True
      \<longrightarrow> (\<exists>e. buildTerraformConfigVariables configVariables oldConfigVariables = Inl e))"
  using buildTerraformBodyFilesFrom_short [of 0 oldLocalBodyFiles actualBodyFiles]
    buildTerraformConfigVariablesFrom_short [of i configVariables oldConfigVariables 0]
  by (simp add: buildTerraformBodyFiles_def buildTerraformConfigVariables_def)

theorem flatten_longer_model_panics_witness:
  "buildTerraformBodyFiles
     [\<lparr>bodyFile_BucketKey = Some ''bucket/key'', bodyFile_Content = None,
       bodyFile_Name = Some ''file'', bodyFile_OriginalFileName = Some ''a.txt'',
       bodyFile_Size = Some 3, bodyFile_Type = Some ''text/plain''\<rparr>] []
     = Inl IndexOutOfRange
   \<and> (\<exists>e. buildTerraformConfigVariables
         [\<lparr>configVariable_Example = None, configVariable_Id = None,
           configVariable_Name = ''TOKEN'', configVariable_Pattern = None,
           configVariable_Secure = Some True, configVariable_Type = ''text''\<rparr>] [] = Inl e)"
  using flatten_longer_model_panics
    [where oldLocalBodyFiles = "[]"
       and actualBodyFiles = "[\<lparr>bodyFile_BucketKey = Some ''bucket/key'', bodyFile_Content = None,
       bodyFile_Name = Some ''file'', bodyFile_OriginalFileName = Some ''a.txt'',
       bodyFile_Size = Some 3, bodyFile_Type = Some ''text/plain''\<rparr>]"
       and i = 0 and oldConfigVariables = "[]"
       and configVariables = "[\<lparr>configVariable_Example = None, configVariable_Id = None,
           configVariable_Name = ''TOKEN'', configVariable_Pattern = None,
           configVariable_Secure = Some True, configVariable_Type = ''text''\<rparr>]"]
  by simp

lemma map_of_mapSet: "map_of (mapSet m k v) = (map_of m)(k \<mapsto> v)"
  by (induction m) auto

lemma mapIndex_mapSet: "mapIndex (mapSet m k v) k' = (if k' = k then v else mapIndex m k')"
  by (simp add: mapIndex_def map_of_mapSet)

lemma mapIndex_setIfPresent:
  "k' \<noteq> k \<Longrightarrow> mapIndex (setIfPresent m k f) k' = mapIndex m k'"
  by (cases f) (simp_all add: setIfPresent_def mapIndex_mapSet)







subsection \<open>The codec\<close>

lemma decodeMap_encodeStd_all: "list_all (\<lambda>d. decodeMap (encodeStd ! d) = Some d) [0..<64]"
  by code_simp

lemma decodeMap_encodeStd: "d < 64 \<Longrightarrow> decodeMap (encodeStd ! d) = Some d"
  using decodeMap_encodeStd_all by (simp add: list_all_iff)

lemma decodeMap_pad: "decodeMap (CHR ''='') = None"
  by code_simp

lemma sextets_join:
  fixes v :: nat
  assumes "v < 16777216"
  shows "(v div 262144 mod 64) * 262144 + (v div 4096 mod 64) * 4096 + (v div 64 mod 64) * 64
      + v mod 64 = v"
proof -
  define x where "x = v div 64"
  define y where "y = x div 64"
  define z where "z = y div 64"
  define vm where "vm = v mod 64"
  define xm where "xm = x mod 64"
  define ym where "ym = y mod 64"
  have v: "v = x * 64 + vm" by (simp add: x_def vm_def)
  have x: "x = y * 64 + xm" by (simp add: y_def xm_def)
  have y: "y = z * 64 + ym" by (simp add: z_def ym_def)
  have d1: "v div 4096 = y" by (simp add: y_def x_def div_mult2_eq)
  have d2: "v div 262144 = z" by (simp add: z_def y_def x_def div_mult2_eq)
  have "z < 64" using assms unfolding d2 [symmetric] by simp
  then have zm: "z mod 64 = z" by simp
  have "z * 262144 + ym * 4096 + xm * 64 + vm = v"
    using v x y by simp
  then show ?thesis
    by (simp add: d1 d2 zm x_def [symmetric] xm_def [symmetric] ym_def [symmetric]
        vm_def [symmetric])
qed

lemma bytes_split:
  fixes a b c :: nat
  assumes "a < 256" "b < 256" "c < 256"
  shows "a * 65536 + b * 256 + c < 16777216"
    and "(a * 65536 + b * 256 + c) div 65536 = a"
    and "(a * 65536 + b * 256 + c) div 256 mod 256 = b"
    and "(a * 65536 + b * 256 + c) mod 256 = c"
proof -
  show "a * 65536 + b * 256 + c < 16777216" using assms by simp
  have "b * 256 + c < 65536" using assms by simp
  then show "(a * 65536 + b * 256 + c) div 65536 = a"
    by (simp add: add.assoc)
  have "(a * 65536 + b * 256 + c) div 256 = a * 256 + b"
    using assms by simp
  then show "(a * 65536 + b * 256 + c) div 256 mod 256 = b"
    using assms by simp
  have e: "a * 65536 + b * 256 + c = c + 256 * (a * 256 + b)" by simp
  have "(c + 256 * (a * 256 + b)) mod 256 = c mod 256"
    by (rule mod_mult_self2)
  with assms(3) show "(a * 65536 + b * 256 + c) mod 256 = c"
    unfolding e by simp
qed

lemma quantumBytes_list:
  "quantumBytes [d0, d1, d2, d3] =
     [char_of ((d0 * 262144 + d1 * 4096 + d2 * 64 + d3) div 65536),
      char_of ((d0 * 262144 + d1 * 4096 + d2 * 64 + d3) div 256),
      char_of (d0 * 262144 + d1 * 4096 + d2 * 64 + d3)]"
  by (simp add: quantumBytes_def Let_def)

lemma quantumBytes_sextets:
  fixes v :: nat
  assumes "v < 16777216"
  shows "quantumBytes [v div 262144 mod 64, v div 4096 mod 64, v div 64 mod 64, v mod 64]
         = [char_of (v div 65536), char_of (v div 256), char_of v]"
  unfolding quantumBytes_list sextets_join [OF assms] ..

lemma char_of_mod: "char_of (n :: nat) = char_of (n mod 256)"
  by simp

lemma quantumBytes_bytes:
  fixes x y z :: nat
  assumes "x < 256" "y < 256" "z < 256"
  shows "quantumBytes
     [(x * 65536 + y * 256 + z) div 262144 mod 64,
      (x * 65536 + y * 256 + z) div 4096 mod 64,
      (x * 65536 + y * 256 + z) div 64 mod 64,
      (x * 65536 + y * 256 + z) mod 64] = [char_of x, char_of y, char_of z]"
proof -
  let ?v = "x * 65536 + y * 256 + z"
  have "char_of (?v div 256) = char_of (?v div 256 mod 256)"
    by (rule char_of_mod)
  then have b: "char_of (?v div 256) = char_of y"
    unfolding bytes_split(3) [OF assms] .
  have "char_of ?v = char_of (?v mod 256)"
    by (rule char_of_mod)
  then have c: "char_of ?v = char_of z"
    unfolding bytes_split(4) [OF assms] .
  show ?thesis
    unfolding quantumBytes_sextets [OF bytes_split(1) [OF assms]] bytes_split(2) [OF assms] b c ..
qed

lemma of_char_lt: "(of_char c :: nat) < 256"
  by simp

lemma quantum3:
  "quantumBytes
     [(of_char a * 65536 + of_char b * 256 + of_char c) div 262144 mod 64,
      (of_char a * 65536 + of_char b * 256 + of_char c) div 4096 mod 64,
      (of_char a * 65536 + of_char b * 256 + of_char c) div 64 mod 64,
      (of_char a * 65536 + of_char b * 256 + of_char c) mod 64] = [a, b, c]"
  using quantumBytes_bytes [OF of_char_lt [of a] of_char_lt [of b] of_char_lt [of c]]
  by (simp only: char_of_char)


lemma sextet_lt: "(v :: nat) div k mod 64 < 64" "v mod 64 < 64"
  by simp_all

lemma EncodeToString_3:
  "EncodeToString (a # b # c # src) =
     (let val = of_char a * 65536 + of_char b * 256 + of_char c
      in [encodeStd ! (val div 262144 mod 64), encodeStd ! (val div 4096 mod 64),
          encodeStd ! (val div 64 mod 64), encodeStd ! (val mod 64)]) @ EncodeToString src"
  by (simp add: Let_def)

lemma decodeFrom_quantum:
  assumes "d0 < 64" "d1 < 64" "d2 < 64" "d3 < 64"
  shows "decodeFrom [] (encodeStd ! d0 # encodeStd ! d1 # encodeStd ! d2 # encodeStd ! d3 # src)
         = (quantumBytes [d0, d1, d2, d3] @ fst (decodeFrom [] src), snd (decodeFrom [] src))"
  using assms by (simp add: decodeMap_encodeStd split: prod.split)

lemma decodeFrom_padded1:
  assumes "d0 < 64" "d1 < 64" "d2 < 64"
  shows "decodeFrom [] [encodeStd ! d0, encodeStd ! d1, encodeStd ! d2, CHR ''='']
         = (take 2 (quantumBytes [d0, d1, d2, 0]), True)"
  using assms
  by (simp add: decodeMap_encodeStd decodeMap_pad isNewline_def paddedQuantum_def
      numeral_2_eq_2)

lemma decodeFrom_padded2:
  assumes "d0 < 64" "d1 < 64"
  shows "decodeFrom [] [encodeStd ! d0, encodeStd ! d1, CHR ''='', CHR ''='']
         = (take 1 (quantumBytes [d0, d1, 0, 0]), True)"
  using assms
  by (simp add: decodeMap_encodeStd decodeMap_pad isNewline_def paddedQuantum_def
      numeral_2_eq_2)


lemma zero_lt_256: "(0 :: nat) < 256"
  by simp

lemma quantumBytes_two:
  fixes x y :: nat
  assumes "x < 256" "y < 256"
  shows "take 2 (quantumBytes
     [(x * 65536 + y * 256) div 262144 mod 64, (x * 65536 + y * 256) div 4096 mod 64,
      (x * 65536 + y * 256) div 64 mod 64, 0]) = [char_of x, char_of y]"
proof -
  have e: "x * 65536 + y * 256 = 64 * (x * 1024 + y * 4)" by simp
  have m: "(x * 65536 + y * 256) mod 64 = 0"
    unfolding e by (rule mod_mult_self1_is_0)
  have q: "quantumBytes
     [(x * 65536 + y * 256) div 262144 mod 64, (x * 65536 + y * 256) div 4096 mod 64,
      (x * 65536 + y * 256) div 64 mod 64, (x * 65536 + y * 256) mod 64]
     = [char_of x, char_of y, char_of (0 :: nat)]"
    using quantumBytes_bytes [OF assms zero_lt_256] by (simp only: add_0_right)
  show ?thesis
    unfolding q [unfolded m] by (simp add: numeral_2_eq_2)
qed

lemma quantumBytes_one:
  fixes x :: nat
  assumes "x < 256"
  shows "take 1 (quantumBytes
     [(x * 65536) div 262144 mod 64, (x * 65536) div 4096 mod 64, 0, 0]) = [char_of x]"
proof -
  have e: "x * 65536 = 64 * (x * 1024)" by simp
  have m: "(x * 65536) mod 64 = 0"
    unfolding e by (rule mod_mult_self1_is_0)
  have e': "(x * 65536) div 64 = 64 * (x * 16)" by simp
  have m': "(x * 65536) div 64 mod 64 = 0"
    unfolding e' by (rule mod_mult_self1_is_0)
  have q: "quantumBytes
     [(x * 65536) div 262144 mod 64, (x * 65536) div 4096 mod 64,
      (x * 65536) div 64 mod 64, (x * 65536) mod 64]
     = [char_of x, char_of (0 :: nat), char_of (0 :: nat)]"
    using quantumBytes_bytes [OF assms zero_lt_256 zero_lt_256]
    by (simp only: add_0_right mult_zero_left)
  show ?thesis
    unfolding q [unfolded m m'] by simp
qed

lemma quantum2:
  "take 2 (quantumBytes
     [(of_char a * 65536 + of_char b * 256) div 262144 mod 64,
      (of_char a * 65536 + of_char b * 256) div 4096 mod 64,
      (of_char a * 65536 + of_char b * 256) div 64 mod 64, 0]) = [a, b]"
  using quantumBytes_two [OF of_char_lt [of a] of_char_lt [of b]]
  by (simp only: char_of_char)

lemma quantum1:
  "take 1 (quantumBytes
     [(of_char a * 65536) div 262144 mod 64, (of_char a * 65536) div 4096 mod 64, 0, 0]) = [a]"
  using quantumBytes_one [OF of_char_lt [of a]]
  by (simp only: char_of_char)


lemma sextets_lt:
  fixes v :: nat
  shows "v div 262144 mod 64 < 64" "v div 4096 mod 64 < 64" "v div 64 mod 64 < 64" "v mod 64 < 64"
  by simp_all

lemma decodeFrom_EncodeToString: "decodeFrom [] (EncodeToString bs) = (bs, True)"
proof (induction bs rule: EncodeToString.induct)
  case (1 a b c src)
  let ?v = "of_char a * 65536 + of_char b * 256 + of_char c :: nat"
  have "EncodeToString (a # b # c # src) =
          encodeStd ! (?v div 262144 mod 64) # encodeStd ! (?v div 4096 mod 64)
          # encodeStd ! (?v div 64 mod 64) # encodeStd ! (?v mod 64) # EncodeToString src"
    by (simp only: EncodeToString.simps Let_def append.simps)
  then have "decodeFrom [] (EncodeToString (a # b # c # src)) =
          (quantumBytes [?v div 262144 mod 64, ?v div 4096 mod 64, ?v div 64 mod 64, ?v mod 64]
             @ fst (decodeFrom [] (EncodeToString src)), snd (decodeFrom [] (EncodeToString src)))"
    by (simp only: decodeFrom_quantum [OF sextets_lt])
  then show ?case
    by (simp only: quantum3 "1.IH" fst_conv snd_conv append.simps)
next
  case (2 a b)
  let ?v = "of_char a * 65536 + of_char b * 256 :: nat"
  have "EncodeToString [a, b] =
          [encodeStd ! (?v div 262144 mod 64), encodeStd ! (?v div 4096 mod 64),
           encodeStd ! (?v div 64 mod 64), CHR ''='']"
    by (simp only: EncodeToString.simps Let_def)
  then show ?case
    by (simp only: decodeFrom_padded1 [OF sextets_lt(1-3)] quantum2)
next
  case (3 a)
  let ?v = "of_char a * 65536 :: nat"
  have "EncodeToString [a] =
          [encodeStd ! (?v div 262144 mod 64), encodeStd ! (?v div 4096 mod 64),
           CHR ''='', CHR ''='']"
    by (simp only: EncodeToString.simps Let_def)
  then show ?case
    by (simp only: decodeFrom_padded2 [OF sextets_lt(1-2)] quantum1)
next
  case 4
  show ?case by simp
qed

text \<open>
  C3. Binary codec round-trip: for every text (a byte string, the empty one included),
  decoding what \<^verbatim>\<open>compressAndEncodeValue\<close> returns gives the text back. The base64
  half is proved on the model of \<^verbatim>\<open>encoding/base64\<close>; \<^verbatim>\<open>compress/zlib\<close> is a
  parameter, and its contract on this text is the hypothesis: the reader accepts what the
  writer wrote and reads the text back without an error.
\<close>

theorem codec_round_trip:
  assumes "zlibNewReader z (zlibWrite z t)"
    and "zlibReadAll z (zlibWrite z t) = (t, True)"
  shows "decompressAndDecodeValue z (compressAndEncodeValue z t) = Inr t"
  using assms
  by (simp add: decompressAndDecodeValue_def compressAndEncodeValue_def DecodeString_def
      decodeFrom_EncodeToString)

lemma adler_abc: "adler32 ''abc'' = 38600999"
  by (simp add: adler32_def)

lemma storedWrite_abc:
  "storedWrite ''abc'' =
     [CHR 0x78, CHR 0x01, CHR 0x01, CHR 0x03, CHR 0x00, CHR 0xFC, CHR 0xFF,
      CHR ''a'', CHR ''b'', CHR ''c'', CHR 0x02, CHR 0x4D, CHR 0x01, CHR 0x27]"
proof -
  have l: "length ''abc'' = 3" by simp
  show ?thesis
    unfolding storedWrite_def l adler_abc
    by (simp add: le16_def be32_def char_of_def bit_Suc_0_iff)
qed

lemma storedNewReader_abc: "storedNewReader (storedWrite ''abc'')"
  unfolding storedWrite_abc by (simp add: storedNewReader_def)

lemma storedReadAll_abc: "storedReadAll (storedWrite ''abc'') = (''abc'', True)"
  unfolding storedWrite_abc
  by (simp add: storedReadAll_def adler_abc be32_def char_of_def bit_Suc_0_iff)

lemma storedWrite_empty:
  "storedWrite '''' =
     [CHR 0x78, CHR 0x01, CHR 0x01, CHR 0x00, CHR 0x00, CHR 0xFF, CHR 0xFF,
      CHR 0x00, CHR 0x00, CHR 0x00, CHR 0x01]"
  by (simp add: storedWrite_def adler32_def le16_def be32_def char_of_def bit_Suc_0_iff)

lemma storedNewReader_empty: "storedNewReader (storedWrite '''')"
  unfolding storedWrite_empty by (simp add: storedNewReader_def)

lemma storedReadAll_empty: "storedReadAll (storedWrite '''') = ('''', True)"
  unfolding storedWrite_empty
  by (simp add: storedReadAll_def adler32_def be32_def char_of_def bit_Suc_0_iff)

theorem codec_round_trip_witness:
  "zlibNewReader storedZlib (zlibWrite storedZlib ''abc'')
   \<and> zlibReadAll storedZlib (zlibWrite storedZlib ''abc'') = (''abc'', True)
   \<and> decompressAndDecodeValue storedZlib (compressAndEncodeValue storedZlib ''abc'') = Inr ''abc''
   \<and> zlibNewReader storedZlib (zlibWrite storedZlib '''')
   \<and> zlibReadAll storedZlib (zlibWrite storedZlib '''') = ('''', True)
   \<and> decompressAndDecodeValue storedZlib (compressAndEncodeValue storedZlib '''') = Inr ''''"
  using codec_round_trip [of storedZlib "''abc''"] codec_round_trip [of storedZlib "''''"]
    storedNewReader_abc storedReadAll_abc storedNewReader_empty storedReadAll_empty
  by (simp add: storedZlib_def)

subsection \<open>Decoding what is not a compressed text\<close>

lemma quantumBytes_eJw: "quantumBytes [30, 9, 48, 0] = [CHR 0x78, CHR 0x9C, CHR 0x00]"
  by (simp add: quantumBytes_def char_of_def bit_Suc_0_iff)

lemma quantum_eJw: "take 2 (quantumBytes [30, 9, 48, 0]) = [CHR 0x78, CHR 0x9C]"
  unfolding quantumBytes_eJw by simp

lemma eJw: "''eJw='' = [encodeStd ! 30, encodeStd ! 9, encodeStd ! 48, CHR ''='']"
  by (simp add: encodeStd_def)

lemma decode_header: "DecodeString ''eJw='' = ([CHR 0x78, CHR 0x9C], True)"
proof -
  have lt: "(30 :: nat) < 64" "(9 :: nat) < 64" "(48 :: nat) < 64" by simp_all
  show ?thesis
    unfolding DecodeString_def eJw
    by (simp only: decodeFrom_padded1 [OF lt] quantum_eJw)
qed

lemma header_accepted: "zlibNewReader storedZlib [CHR 0x78, CHR 0x9C]"
  by (simp add: storedZlib_def storedNewReader_def)

lemma header_read: "zlibReadAll storedZlib [CHR 0x78, CHR 0x9C] = ('''', False)"
  by (simp add: storedZlib_def storedReadAll_def)

text \<open>
  C4. Binary codec failure policy, as the code has it: \<^verbatim>\<open>decompressAndDecodeValue\<close> has
  no error result and drops the error of \<^verbatim>\<open>DecodeString\<close> and the error of
  \<^verbatim>\<open>io.ReadAll\<close>. Whenever \<^verbatim>\<open>zlib.NewReader\<close> accepts the bytes decoded before the
  base64 error, if any, the call returns what was read before the decompression error, if
  any, as the text.
\<close>

theorem decompress_drops_errors:
  assumes "DecodeString v = (decodedValue, decoded)"
    and "zlibNewReader z decodedValue"
    and "zlibReadAll z decodedValue = (text, complete)"
  shows "decompressAndDecodeValue z v = Inr text"
  using assms by (simp add: decompressAndDecodeValue_def)

theorem decompress_drops_errors_witness:
  "DecodeString ''eJw='' = ([CHR 0x78, CHR 0x9C], True)
   \<and> zlibNewReader storedZlib [CHR 0x78, CHR 0x9C]
   \<and> zlibReadAll storedZlib [CHR 0x78, CHR 0x9C] = ('''', False)
   \<and> decompressAndDecodeValue storedZlib ''eJw='' = Inr ''''"
  using decompress_drops_errors [OF decode_header header_accepted header_read]
    decode_header header_accepted header_read
  by simp

theorem truncated_stream_returns_empty:
  "snd (zlibReadAll storedZlib (fst (DecodeString ''eJw=''))) = False
   \<and> decompressAndDecodeValue storedZlib ''eJw='' = Inr ''''"
  by (simp add: decompressAndDecodeValue_def decode_header header_accepted header_read)

end
